theory Spec2Isabelle
  imports Main "HOL-Library.Word"
begin

text \<open>
  The Cloudflare email worker \<^verbatim>\<open>src/index.js\<close>: class \<^verbatim>\<open>EmailProcessor\<close>, which
  extracts the plain-text body of a raw email, cleans it and posts it to an ntfy server,
  and the worker's \<^verbatim>\<open>email\<close> handler. The string functions are pure; the sender and
  the handlers pass the console and the outgoing requests along explicitly.
\<close>

section \<open>JavaScript strings\<close>

text \<open>
  A JavaScript string is a sequence of UTF-16 code units. A code unit is a 16-bit word
  and a string is a list of them. \<open>js\<close> embeds an ASCII literal.
\<close>

type_synonym jschar = "16 word"
type_synonym jsstring = "jschar list"

definition js :: "string \<Rightarrow> jsstring" where
  "js s = map of_char s"

definition CR :: jschar where "CR = 0x0D"
definition LF :: jschar where "LF = 0x0A"
definition SP :: jschar where "SP = 0x20"
definition EQ :: jschar where "EQ = 0x3D"
definition AT :: jschar where "AT = 0x40"
definition DOT :: jschar where "DOT = 0x2E"
definition DASH :: jschar where "DASH = 0x2D"
definition QUOTE :: jschar where "QUOTE = 0x22"
definition SEMI :: jschar where "SEMI = 0x3B"

text \<open>
  The characters matched by \<^verbatim>\<open>\s\<close> in a regular expression and removed by
  \<^verbatim>\<open>String.prototype.trim\<close>: ECMAScript's WhiteSpace and LineTerminator
  (TAB, LF, VT, FF, CR, SP, NBSP, the Unicode space separators, LS, PS and the BOM).
\<close>

definition isWhiteSpace :: "jschar \<Rightarrow> bool" where
  "isWhiteSpace c \<longleftrightarrow>
     c \<in> set [0x09, 0x0A, 0x0B, 0x0C, 0x0D, 0x20, 0xA0, 0x1680, 0x2028, 0x2029,
              0x202F, 0x205F, 0x3000, 0xFEFF]
     \<or> (0x2000 \<le> c \<and> c \<le> 0x200A)"

text \<open>\<^verbatim>\<open>s.trim()\<close>\<close>

definition trim :: "jsstring \<Rightarrow> jsstring" where
  "trim s = rev (dropWhile isWhiteSpace (rev (dropWhile isWhiteSpace s)))"

text \<open>\<^verbatim>\<open>s.replace(/\s+/g, ' ')\<close>: every maximal run of whitespace becomes one space.\<close>

function replace_ws_runs :: "jsstring \<Rightarrow> jsstring" where
  "replace_ws_runs [] = []"
| "replace_ws_runs (c # cs) =
     (if isWhiteSpace c then SP # replace_ws_runs (dropWhile isWhiteSpace cs)
      else c # replace_ws_runs cs)"
  by pat_completeness auto
termination
  by (relation "measure length") (auto simp: le_imp_less_Suc length_dropWhile_le)

text \<open>\<^verbatim>\<open>s.replace(/\s/g, '')\<close>\<close>

definition remove_ws :: "jsstring \<Rightarrow> jsstring" where
  "remove_ws s = filter (\<lambda>c. \<not> isWhiteSpace c) s"

text \<open>\<^verbatim>\<open>s.replace(/[\r\n]/g, ' ')\<close>\<close>

definition replace_line_breaks :: "jsstring \<Rightarrow> jsstring" where
  "replace_line_breaks s = map (\<lambda>c. if c = CR \<or> c = LF then SP else c) s"

text \<open>\<^verbatim>\<open>s.startsWith(p)\<close>, \<^verbatim>\<open>s.includes(p)\<close> and \<^verbatim>\<open>s.indexOf(p)\<close>
  (\<open>None\<close> for \<open>-1\<close>).\<close>

definition startsWith :: "jsstring \<Rightarrow> jsstring \<Rightarrow> bool" where
  "startsWith s p \<longleftrightarrow> take (length p) s = p"

fun indexOf :: "jsstring \<Rightarrow> jsstring \<Rightarrow> nat option" where
  "indexOf [] p = (if p = [] then Some 0 else None)"
| "indexOf (c # cs) p =
     (if startsWith (c # cs) p then Some 0 else map_option Suc (indexOf cs p))"

definition includes_str :: "jsstring \<Rightarrow> jsstring \<Rightarrow> bool" where
  "includes_str s p \<longleftrightarrow> indexOf s p \<noteq> None"

text \<open>\<^verbatim>\<open>s.slice(n)\<close> for \<open>n \<ge> 0\<close>\<close>

definition slice_str :: "jsstring \<Rightarrow> nat \<Rightarrow> jsstring" where
  "slice_str s n = drop n s"

text \<open>\<^verbatim>\<open>s.split(sep)\<close> with a string separator, and \<^verbatim>\<open>xs.join(sep)\<close>.\<close>

function split :: "jsstring \<Rightarrow> jsstring \<Rightarrow> jsstring list" where
  "split s sep =
     (if sep = [] then map (\<lambda>c. [c]) s
      else case indexOf s sep of
             None \<Rightarrow> [s]
           | Some i \<Rightarrow> take i s # split (drop (i + length sep) s) sep)"
  by pat_completeness auto
termination
proof (relation "measure (\<lambda>(s, sep). length s)")
  show "wf (measure (\<lambda>(s, sep). length s))" by simp
next
  fix s sep :: jsstring and i
  assume sep: "sep \<noteq> []" and idx: "indexOf s sep = Some i"
  have "s \<noteq> []"
    using sep idx by (cases s) auto
  then have "length s - (i + length sep) < length s"
    using sep by (cases s; cases sep) auto
  then show "((drop (i + length sep) s, sep), (s, sep)) \<in> measure (\<lambda>(s, sep). length s)"
    by simp
qed

declare split.simps [simp del]

fun join :: "jsstring list \<Rightarrow> jsstring \<Rightarrow> jsstring" where
  "join [] sep = []"
| "join [x] sep = x"
| "join (x # y # ys) sep = x @ sep @ join (y # ys) sep"

text \<open>\<^verbatim>\<open>xs[i]\<close>: \<open>None\<close> is \<^verbatim>\<open>undefined\<close>.\<close>

fun at_index :: "'a list \<Rightarrow> nat \<Rightarrow> 'a option" where
  "at_index [] i = None"
| "at_index (x # xs) 0 = Some x"
| "at_index (x # xs) (Suc i) = at_index xs i"

text \<open>
  \<^verbatim>\<open>s.toLowerCase()\<close> on the ASCII letters. The source compares the lowered string
  only with the ASCII literals \<^verbatim>\<open>'quoted-printable'\<close> and \<^verbatim>\<open>'base64'\<close>; the
  only characters outside ASCII that Unicode lowers into ASCII are U+212A (to \<open>k\<close>) and
  U+0130 (to \<open>i\<close> followed by U+0307), and neither yields one of these two literals, so
  the comparisons come out as in the runtime.
\<close>

definition toLowerCase :: "jsstring \<Rightarrow> jsstring" where
  "toLowerCase s = map (\<lambda>c. if 0x41 \<le> c \<and> c \<le> 0x5A then c + 0x20 else c) s"

text \<open>
  Matching a literal ASCII pattern under the \<^verbatim>\<open>/i\<close> flag (without \<^verbatim>\<open>/u\<close>):
  both sides are canonicalised by upper-casing, and a character outside ASCII is never
  canonicalised into ASCII, so an ASCII pattern letter matches its two cases only.
\<close>

definition canonicalize :: "jschar \<Rightarrow> jschar" where
  "canonicalize c = (if 0x61 \<le> c \<and> c \<le> 0x7A then c - 0x20 else c)"

definition startsWith_ci :: "jsstring \<Rightarrow> jsstring \<Rightarrow> bool" where
  "startsWith_ci s p \<longleftrightarrow>
     length p \<le> length s \<and> map canonicalize (take (length p) s) = map canonicalize p"

text \<open>Errors thrown by the program and by the runtime, and results that may throw.\<close>

datatype js_error = Error jsstring | TypeError jsstring | InvalidCharacterError

type_synonym 'a result = "js_error + 'a"

section \<open>Decoders\<close>

text \<open>
  \<^verbatim>\<open>
  decodeQuotedPrintable(input) {
    if (!input) return '';
    return input
      .replace(/=\r?\n/g, '')
      .replace(/=([A-Fa-f0-9]{2})/g, (_, hex) => String.fromCharCode(parseInt(hex, 16)));
  }
  \<close>
  Each \<^verbatim>\<open>replace\<close> scans once from left to right and continues after a match.
\<close>

fun remove_soft_breaks :: "jsstring \<Rightarrow> jsstring" where
  "remove_soft_breaks [] = []"
| "remove_soft_breaks (c # cs) =
     (if startsWith (c # cs) [EQ, CR, LF] then remove_soft_breaks (drop 2 cs)
      else if startsWith (c # cs) [EQ, LF] then remove_soft_breaks (drop 1 cs)
      else c # remove_soft_breaks cs)"

definition isHexDigit :: "jschar \<Rightarrow> bool" where
  "isHexDigit c \<longleftrightarrow>
     (0x41 \<le> c \<and> c \<le> 0x46) \<or> (0x61 \<le> c \<and> c \<le> 0x66) \<or> (0x30 \<le> c \<and> c \<le> 0x39)"

definition hexValue :: "jschar \<Rightarrow> jschar" where
  "hexValue c =
     (if 0x30 \<le> c \<and> c \<le> 0x39 then c - 0x30
      else if 0x41 \<le> c \<and> c \<le> 0x46 then c - 0x41 + 10
      else c - 0x61 + 10)"

text \<open>\<^verbatim>\<open>String.fromCharCode(parseInt(hex, 16))\<close> for two hex digits.\<close>

definition fromHexPair :: "jschar \<Rightarrow> jschar \<Rightarrow> jschar" where
  "fromHexPair h l = 16 * hexValue h + hexValue l"

fun replace_hex_escapes :: "jsstring \<Rightarrow> jsstring" where
  "replace_hex_escapes (e # h # l # cs) =
     (if e = EQ \<and> isHexDigit h \<and> isHexDigit l
      then fromHexPair h l # replace_hex_escapes cs
      else e # replace_hex_escapes (h # l # cs))"
| "replace_hex_escapes cs = cs"

definition decodeQuotedPrintable :: "jsstring \<Rightarrow> jsstring" where
  "decodeQuotedPrintable input =
     (if input = [] then [] else replace_hex_escapes (remove_soft_breaks input))"

text \<open>
  The runtime's \<^verbatim>\<open>atob\<close> (forgiving base64 decoding): ASCII whitespace is removed;
  when the length is a multiple of four, one or two trailing \<open>=\<close> are removed; a length
  of 1 modulo 4 or a character outside the base64 alphabet throws
  \<open>InvalidCharacterError\<close>; otherwise every character gives six bits, every full group
  of eight bits gives a character, and the leftover bits are dropped.
\<close>

definition isAsciiWhitespace :: "jschar \<Rightarrow> bool" where
  "isAsciiWhitespace c \<longleftrightarrow> c \<in> set [0x09, 0x0A, 0x0C, 0x0D, 0x20]"

definition base64_value :: "jschar \<Rightarrow> nat option" where
  "base64_value c =
     (if 0x41 \<le> c \<and> c \<le> 0x5A then Some (unat c - 0x41)
      else if 0x61 \<le> c \<and> c \<le> 0x7A then Some (unat c - 0x61 + 26)
      else if 0x30 \<le> c \<and> c \<le> 0x39 then Some (unat c - 0x30 + 52)
      else if c = 0x2B then Some 62
      else if c = 0x2F then Some 63
      else None)"

definition strip_padding :: "jsstring \<Rightarrow> jsstring" where
  "strip_padding d =
     (if length d mod 4 = 0 \<and> d \<noteq> [] \<and> last d = EQ
      then (if butlast d \<noteq> [] \<and> last (butlast d) = EQ then butlast (butlast d)
            else butlast d)
      else d)"

fun base64_bytes :: "nat list \<Rightarrow> jsstring" where
  "base64_bytes (a # b # c # d # vs) =
     of_nat (a * 4 + b div 16) # of_nat ((b mod 16) * 16 + c div 4)
       # of_nat ((c mod 4) * 64 + d) # base64_bytes vs"
| "base64_bytes [a, b, c] = [of_nat (a * 4 + b div 16), of_nat ((b mod 16) * 16 + c div 4)]"
| "base64_bytes [a, b] = [of_nat (a * 4 + b div 16)]"
| "base64_bytes vs = []"

definition atob :: "jsstring \<Rightarrow> jsstring result" where
  "atob data =
     (let d = strip_padding (filter (\<lambda>c. \<not> isAsciiWhitespace c) data)
      in if length d mod 4 = 1 then Inl InvalidCharacterError
         else case those (map base64_value d) of
                None \<Rightarrow> Inl InvalidCharacterError
              | Some vs \<Rightarrow> Inr (base64_bytes vs))"

text \<open>
  \<^verbatim>\<open>
  decodeBase64(input) {
    if (!input) return '';
    try {
      return atob(input.replace(/\s/g, ''));
    } catch (error) {
      console.warn('Failed to decode base64:', error);
      return input; // Return original if decode fails
    }
  }
  \<close>
  The value returned is modelled; the line that \<^verbatim>\<open>console.warn\<close> prints is not.
\<close>

definition decodeBase64 :: "jsstring \<Rightarrow> jsstring result" where
  "decodeBase64 input =
     (if input = [] then Inr []
      else case atob (remove_ws input) of
             Inr decoded \<Rightarrow> Inr decoded
           | Inl error \<Rightarrow> Inr input)"

section \<open>MimeBodyExtractor\<close>

definition CRLFCRLF :: jsstring where
  "CRLFCRLF = [CR, LF, CR, LF]"

text \<open>
  \<^verbatim>\<open>
  extractSimpleEmail(raw) {
    const headerEnd = raw.indexOf('\r\n\r\n');
    return headerEnd !== -1 ? raw.slice(headerEnd + 4).trim() : raw.trim();
  }
  \<close>
\<close>

definition extractSimpleEmail :: "jsstring \<Rightarrow> jsstring" where
  "extractSimpleEmail raw =
     (case indexOf raw CRLFCRLF of
        Some headerEnd \<Rightarrow> trim (slice_str raw (headerEnd + 4))
      | None \<Rightarrow> trim raw)"

text \<open>
  \<^verbatim>\<open>raw.match(/boundary="?([^";\r\n]+)"?/i)\<close>, the first capture group of the leftmost
  match. At one position the pattern matches when \<open>boundary=\<close> is there (in any case),
  and after an optional quote at least one character other than \<open>"\<close>, \<open>;\<close>, CR and
  LF follows; the group is the longest run of such characters.
\<close>

definition isBoundaryChar :: "jschar \<Rightarrow> bool" where
  "isBoundaryChar c \<longleftrightarrow> c \<noteq> QUOTE \<and> c \<noteq> SEMI \<and> c \<noteq> CR \<and> c \<noteq> LF"

definition match_boundary_at :: "jsstring \<Rightarrow> jsstring option" where
  "match_boundary_at s =
     (if startsWith_ci s (js ''boundary='')
      then (let r = drop (length (js ''boundary='')) s;
                r' = (if r \<noteq> [] \<and> hd r = QUOTE then tl r else r);
                v = takeWhile isBoundaryChar r'
            in if v \<noteq> [] then Some v else None)
      else None)"

fun boundary_match :: "jsstring \<Rightarrow> jsstring option" where
  "boundary_match [] = None"
| "boundary_match (c # cs) =
     (case match_boundary_at (c # cs) of
        Some b \<Rightarrow> Some b
      | None \<Rightarrow> boundary_match cs)"

text \<open>
  \<^verbatim>\<open>part.match(/Content-Transfer-Encoding:\s*(\S+)/i)\<close>, the first capture group of the
  leftmost match.
\<close>

definition match_encoding_at :: "jsstring \<Rightarrow> jsstring option" where
  "match_encoding_at s =
     (if startsWith_ci s (js ''Content-Transfer-Encoding:'')
      then (let r = dropWhile isWhiteSpace (drop (length (js ''Content-Transfer-Encoding:'')) s);
                v = takeWhile (\<lambda>c. \<not> isWhiteSpace c) r
            in if v \<noteq> [] then Some v else None)
      else None)"

fun encoding_match :: "jsstring \<Rightarrow> jsstring option" where
  "encoding_match [] = None"
| "encoding_match (c # cs) =
     (case match_encoding_at (c # cs) of
        Some e \<Rightarrow> Some e
      | None \<Rightarrow> encoding_match cs)"

text \<open>\<^verbatim>\<open>body.replace(/--$/, '')\<close>: without the \<^verbatim>\<open>m\<close> flag \<open>$\<close> is the end of the
  string.\<close>

definition remove_trailing_dashes :: "jsstring \<Rightarrow> jsstring" where
  "remove_trailing_dashes b =
     (if 2 \<le> length b \<and> drop (length b - 2) b = [DASH, DASH] then take (length b - 2) b
      else b)"

text \<open>
  \<^verbatim>\<open>
  extractPartBody(part) {
    const bodyStart = part.indexOf('\r\n\r\n');
    if (bodyStart === -1) return null;
    const encodingMatch = part.match(/Content-Transfer-Encoding:\s*(\S+)/i);
    const encoding = encodingMatch ? encodingMatch[1].toLowerCase() : '7bit';
    let body = part.slice(bodyStart + 4).trim();
    body = body.replace(/--$/, '').trim();
    if (!body) return null;
    switch (encoding) {
      case 'quoted-printable': return this.decodeQuotedPrintable(body);
      case 'base64': return this.decodeBase64(body);
      default: return body;
    }
  }
  \<close>
  \<open>None\<close> is \<^verbatim>\<open>null\<close>.
\<close>

definition part_encoding :: "jsstring \<Rightarrow> jsstring" where
  "part_encoding part =
     (case encoding_match part of Some e \<Rightarrow> toLowerCase e | None \<Rightarrow> js ''7bit'')"

definition extractPartBody :: "jsstring \<Rightarrow> jsstring option result" where
  "extractPartBody part =
     (case indexOf part CRLFCRLF of
        None \<Rightarrow> Inr None
      | Some bodyStart \<Rightarrow>
          (let encoding = part_encoding part;
               body = trim (slice_str part (bodyStart + 4));
               body = trim (remove_trailing_dashes body)
           in if body = [] then Inr None
              else if encoding = js ''quoted-printable''
                then Inr (Some (decodeQuotedPrintable body))
              else if encoding = js ''base64''
                then (case decodeBase64 body of Inl e \<Rightarrow> Inl e | Inr d \<Rightarrow> Inr (Some d))
              else Inr (Some body)))"

text \<open>
  \<^verbatim>\<open>
  extractPlainText(raw) {
    if (!raw) return '';
    const boundaryMatch = raw.match(/boundary="?([^";\r\n]+)"?/i);
    if (!boundaryMatch) return this.extractSimpleEmail(raw);
    const boundary = boundaryMatch[1];
    const parts = raw.split(`--${boundary}`);
    for (const part of parts) {
      if (!part.includes('Content-Type: text/plain')) continue;
      const body = this.extractPartBody(part);
      if (body) return body;
    }
    return this.extractSimpleEmail(raw);
  }
  \<close>
  \<open>first_part_body\<close> is the loop; \<open>None\<close> means that it ran to its end.
\<close>

fun first_part_body :: "jsstring list \<Rightarrow> jsstring option result" where
  "first_part_body [] = Inr None"
| "first_part_body (part # parts) =
     (if \<not> includes_str part (js ''Content-Type: text/plain'') then first_part_body parts
      else case extractPartBody part of
             Inl e \<Rightarrow> Inl e
           | Inr None \<Rightarrow> first_part_body parts
           | Inr (Some body) \<Rightarrow> if body \<noteq> [] then Inr (Some body) else first_part_body parts)"

definition extractPlainText :: "jsstring \<Rightarrow> jsstring result" where
  "extractPlainText raw =
     (if raw = [] then Inr []
      else case boundary_match raw of
             None \<Rightarrow> Inr (extractSimpleEmail raw)
           | Some boundary \<Rightarrow>
               (case first_part_body (split raw (js ''--'' @ boundary)) of
                  Inl e \<Rightarrow> Inl e
                | Inr (Some body) \<Rightarrow> Inr body
                | Inr None \<Rightarrow> Inr (extractSimpleEmail raw)))"

section \<open>TextSanitizer\<close>

text \<open>
  \<^verbatim>\<open>
  cleanBodyText(text) {
    if (!text) return '';
    return text
      .replace(/\s+/g, ' ') // Normalize whitespace
      .trim()
      .split('\n')
      .filter(line => !line.trim().startsWith('>')) // Remove quoted replies
      .join('\n')
      .trim();
  }
  \<close>
\<close>

definition cleanBodyText :: "jsstring \<Rightarrow> jsstring" where
  "cleanBodyText text =
     (if text = [] then []
      else trim (join (filter (\<lambda>line. \<not> startsWith (trim line) (js ''>''))
                         (split (trim (replace_ws_runs text)) [LF])) [LF]))"

text \<open>
  \<^verbatim>\<open>
  truncateText(text, maxLength = 1000) {
    if (!text || text.length <= maxLength) return text;
    return text.slice(0, maxLength) + '\n\n*...truncated*';
  }
  \<close>
\<close>

definition truncateText :: "jsstring \<Rightarrow> nat \<Rightarrow> jsstring" where
  "truncateText text maxLength =
     (if text = [] \<or> length text \<le> maxLength then text
      else take maxLength text @ [LF, LF] @ js ''*...truncated*'')"

text \<open>
  \<^verbatim>\<open>
  sanitizeHeader(value) {
    if (!value) return '';
    return value.replace(/[\r\n]/g, ' ').replace(/\s+/g, ' ').trim();
  }
  \<close>
\<close>

definition sanitizeHeader :: "jsstring \<Rightarrow> jsstring" where
  "sanitizeHeader v =
     (if v = [] then [] else trim (replace_ws_runs (replace_line_breaks v)))"

section \<open>NotificationFormatter\<close>

text \<open>
  \<^verbatim>\<open>
  generateTopic(email) {
    if (!email || !email.includes('@')) return 'unknown';
    const domain = email.split('@')[1];
    return domain ? domain.replace(/\./g, '-') : 'unknown';
  }
  \<close>
\<close>

definition replace_dots :: "jsstring \<Rightarrow> jsstring" where
  "replace_dots s = map (\<lambda>c. if c = DOT then DASH else c) s"

definition generateTopic :: "jsstring \<Rightarrow> jsstring" where
  "generateTopic email =
     (if email = [] \<or> \<not> includes_str email [AT] then js ''unknown''
      else case at_index (split email [AT]) 1 of
             None \<Rightarrow> js ''unknown''
           | Some domain \<Rightarrow> if domain \<noteq> [] then replace_dots domain else js ''unknown'')"

text \<open>
  \<^verbatim>\<open>
  buildMarkdownPayload(emailData) {
    const { from, to, subject, date, body } = emailData;
    return `
  **Date:** ${this.sanitizeHeader(date)}

  **From:** ${this.sanitizeHeader(from)}  
  **To:** ${this.sanitizeHeader(to)}  
  **Subject:** ${this.sanitizeHeader(subject)}  

  ---

  ${body}
  `.trim();
  }
  \<close>
  (the template's lines start in column 0 in the source, and the three lines of From, To
  and Subject end with two spaces).
\<close>

record emailData =
  ed_from :: jsstring
  ed_to :: jsstring
  ed_subject :: jsstring
  ed_date :: jsstring
  ed_body :: jsstring

definition buildMarkdownPayload :: "emailData \<Rightarrow> jsstring" where
  "buildMarkdownPayload emailData =
     trim ([LF] @ js ''**Date:** '' @ sanitizeHeader (ed_date emailData) @ [LF] @
           [LF] @
           js ''**From:** '' @ sanitizeHeader (ed_from emailData) @ js ''  '' @ [LF] @
           js ''**To:** '' @ sanitizeHeader (ed_to emailData) @ js ''  '' @ [LF] @
           js ''**Subject:** '' @ sanitizeHeader (ed_subject emailData) @ js ''  '' @ [LF] @
           [LF] @
           js ''---'' @ [LF] @
           [LF] @
           ed_body emailData @ [LF])"

section \<open>NotificationSender and the handlers\<close>

text \<open>
  What the program does to the outside is kept in a \<open>world\<close>: the lines written by
  \<^verbatim>\<open>console.error\<close> and \<^verbatim>\<open>console.log\<close>, and the requests handed to
  \<^verbatim>\<open>fetch\<close>, both in order. What the outside answers is a \<open>runtime\<close>: the outcome
  of \<^verbatim>\<open>fetch\<close> for a request (a response, or the error it rejects with) and the
  value of \<^verbatim>\<open>new Date().toISOString()\<close>. A function that may throw returns a
  \<open>result\<close> beside the new world.
\<close>

record env =
  NTFY_SERVER :: "jsstring option"

record response =
  resp_ok :: bool
  resp_status :: nat
  resp_statusText :: jsstring

record request =
  req_url :: jsstring
  req_method :: jsstring
  req_headers :: "(jsstring \<times> jsstring) list"
  req_body :: jsstring

datatype console_entry = ConsoleError jsstring "js_error option" | ConsoleLog jsstring

record world =
  console :: "console_entry list"
  fetched :: "request list"

record runtime =
  rt_fetch :: "request \<Rightarrow> response result"
  rt_now :: jsstring

text \<open>
  The inbound message: \<^verbatim>\<open>message.to\<close>, \<^verbatim>\<open>message.from\<close> (\<open>None\<close> when
  absent), \<^verbatim>\<open>message.headers.get(name)\<close> (\<open>None\<close> for \<^verbatim>\<open>null\<close>), and the
  outcome of \<^verbatim>\<open>await new Response(message.raw).text()\<close>.
\<close>

record message =
  msg_to :: "jsstring option"
  msg_from :: "jsstring option"
  msg_headers_get :: "jsstring \<Rightarrow> jsstring option"
  msg_raw_text :: "jsstring result"

text \<open>\<^verbatim>\<open>a || b\<close> where \<open>a\<close> is a string or absent: the empty string is falsy.\<close>

definition truthy :: "jsstring option \<Rightarrow> bool" where
  "truthy a \<longleftrightarrow> (case a of None \<Rightarrow> False | Some s \<Rightarrow> s \<noteq> [])"

definition or_else :: "jsstring option \<Rightarrow> jsstring \<Rightarrow> jsstring" where
  "or_else a b = (case a of None \<Rightarrow> b | Some s \<Rightarrow> if s \<noteq> [] then s else b)"

text \<open>A status code inside a template literal: its decimal digits.\<close>

function number_toString :: "nat \<Rightarrow> jsstring" where
  "number_toString n =
     (if n < 10 then [0x30 + of_nat n]
      else number_toString (n div 10) @ [0x30 + of_nat (n mod 10)])"
  by pat_completeness auto
termination
  by (relation "measure id") auto

declare number_toString.simps [simp del]

text \<open>
  \<^verbatim>\<open>
  class EmailProcessor {
    constructor(env) {
      this.env = env;
      this.validateEnvironment();
    }
    validateEnvironment() {
      if (!this.env.NTFY_SERVER) {
        throw new Error('NTFY_SERVER environment variable is required');
      }
    }
  \<close>
\<close>

record processor =
  this_env :: env

definition validateEnvironment :: "processor \<Rightarrow> unit result" where
  "validateEnvironment this =
     (if \<not> truthy (NTFY_SERVER (this_env this))
      then Inl (Error (js ''NTFY_SERVER environment variable is required''))
      else Inr ())"

definition new_EmailProcessor :: "env \<Rightarrow> processor result" where
  "new_EmailProcessor e =
     (let this = \<lparr>this_env = e\<rparr>
      in case validateEnvironment this of Inl err \<Rightarrow> Inl err | Inr _ \<Rightarrow> Inr this)"

text \<open>\<^verbatim>\<open>s.replace(/\/$/, '')\<close>\<close>

definition remove_trailing_slash :: "jsstring \<Rightarrow> jsstring" where
  "remove_trailing_slash s = (if s \<noteq> [] \<and> last s = 0x2F then butlast s else s)"

text \<open>
  \<^verbatim>\<open>
  async sendNotification(topic, payload, subject, to) {
    const ntfyServer = this.env.NTFY_SERVER.replace(/\/$/, '');
    const url = `${ntfyServer}/${topic}`;
    const headers = {
      'Title': `Email: ${this.sanitizeHeader(subject)}`,
      'Priority': '4',
      'Tags': `email,${this.sanitizeHeader(to)}`,
      'Markdown': 'yes'
    };
    try {
      const response = await fetch(url, { method: 'POST', headers, body: payload });
      if (!response.ok) {
        console.error(`ntfy request failed: ${response.status} ${response.statusText}`);
      }
    } catch (error) {
      console.error('Failed to send ntfy notification:', error);
      throw error;
    }
  }
  \<close>
  Reading \<^verbatim>\<open>.replace\<close> of an absent \<^verbatim>\<open>NTFY_SERVER\<close> throws a \<open>TypeError\<close>, outside
  the \<^verbatim>\<open>try\<close>. \<open>notification_request\<close> is what is handed to \<^verbatim>\<open>fetch\<close>: the
  URL and the \<^verbatim>\<open>method\<close>, \<^verbatim>\<open>headers\<close> and \<^verbatim>\<open>body\<close> of its second argument.
\<close>

definition notification_request ::
  "jsstring \<Rightarrow> jsstring \<Rightarrow> jsstring \<Rightarrow> jsstring \<Rightarrow> jsstring \<Rightarrow> request" where
  "notification_request server topic payload subject recipient =
     \<lparr>req_url = remove_trailing_slash server @ js ''/'' @ topic,
      req_method = js ''POST'',
      req_headers =
        [(js ''Title'', js ''Email: '' @ sanitizeHeader subject),
         (js ''Priority'', js ''4''),
         (js ''Tags'', js ''email,'' @ sanitizeHeader recipient),
         (js ''Markdown'', js ''yes'')],
      req_body = payload\<rparr>"

definition sendNotification ::
  "processor \<Rightarrow> runtime \<Rightarrow> jsstring \<Rightarrow> jsstring \<Rightarrow> jsstring \<Rightarrow> jsstring \<Rightarrow> world
     \<Rightarrow> unit result \<times> world" where
  "sendNotification this rt topic payload subject recipient w =
     (case NTFY_SERVER (this_env this) of
        None \<Rightarrow> (Inl (TypeError (js ''Cannot read properties of undefined'')), w)
      | Some server \<Rightarrow>
          (let req = notification_request server topic payload subject recipient;
               w1 = w\<lparr>fetched := fetched w @ [req]\<rparr>
           in case rt_fetch rt req of
                Inr response \<Rightarrow>
                  if \<not> resp_ok response
                  then (Inr (),
                        w1\<lparr>console := console w1 @
                          [ConsoleError (js ''ntfy request failed: ''
                             @ number_toString (resp_status response) @ js '' ''
                             @ resp_statusText response) None]\<rparr>)
                  else (Inr (), w1)
              | Inl error \<Rightarrow>
                  (Inl error,
                   w1\<lparr>console := console w1 @
                     [ConsoleError (js ''Failed to send ntfy notification:'') (Some error)]\<rparr>)))"

text \<open>
  \<^verbatim>\<open>
  async processEmail(message) {
    try {
      const to = message.to || '';
      const from = message.headers.get('from') || message.from || '(unknown sender)';
      const subject = message.headers.get('subject') || '(no subject)';
      const date = message.headers.get('date') || new Date().toISOString();
      const raw = await new Response(message.raw).text();
      let bodyText = this.extractPlainText(raw);
      bodyText = this.cleanBodyText(bodyText);
      const truncatedBody = this.truncateText(bodyText);
      const emailData = { from, to, subject, date, body: truncatedBody };
      const payload = this.buildMarkdownPayload(emailData);
      const topic = this.generateTopic(to);
      await this.sendNotification(topic, payload, subject, to);
      console.log(`Email notification sent for: ${subject}`);
    } catch (error) {
      console.error('Email processing failed:', error);
      throw error;
    }
  }
  \<close>
  \<open>processEmail_body\<close> is the \<^verbatim>\<open>try\<close> block.
\<close>

definition processEmail_body ::
  "processor \<Rightarrow> runtime \<Rightarrow> message \<Rightarrow> world \<Rightarrow> unit result \<times> world" where
  "processEmail_body this rt message w =
     (let recipient = or_else (msg_to message) [];
          sender = or_else (msg_headers_get message (js ''from''))
                     (or_else (msg_from message) (js ''(unknown sender)''));
          subject = or_else (msg_headers_get message (js ''subject'')) (js ''(no subject)'');
          date = or_else (msg_headers_get message (js ''date'')) (rt_now rt)
      in case msg_raw_text message of
           Inl e \<Rightarrow> (Inl e, w)
         | Inr raw \<Rightarrow>
             (case extractPlainText raw of
                Inl e \<Rightarrow> (Inl e, w)
              | Inr bodyText \<Rightarrow>
                  (let bodyText = cleanBodyText bodyText;
                       truncatedBody = truncateText bodyText 1000;
                       emailData = \<lparr>ed_from = sender, ed_to = recipient, ed_subject = subject,
                                    ed_date = date, ed_body = truncatedBody\<rparr>;
                       payload = buildMarkdownPayload emailData;
                       topic = generateTopic recipient
                   in case sendNotification this rt topic payload subject recipient w of
                        (Inl e, w') \<Rightarrow> (Inl e, w')
                      | (Inr _, w') \<Rightarrow>
                          (Inr (),
                           w'\<lparr>console := console w' @
                             [ConsoleLog (js ''Email notification sent for: '' @ subject)]\<rparr>))))"

definition processEmail ::
  "processor \<Rightarrow> runtime \<Rightarrow> message \<Rightarrow> world \<Rightarrow> unit result \<times> world" where
  "processEmail this rt message w =
     (case processEmail_body this rt message w of
        (Inl error, w') \<Rightarrow>
          (Inl error,
           w'\<lparr>console := console w' @
             [ConsoleError (js ''Email processing failed:'') (Some error)]\<rparr>)
      | (Inr u, w') \<Rightarrow> (Inr u, w'))"

text \<open>
  \<^verbatim>\<open>
  export default {
    async email(message, env, ctx) {
      try {
        const processor = new EmailProcessor(env);
        await processor.processEmail(message);
      } catch (error) {
        console.error('Worker email handler failed:', error);
        // Don't re-throw to prevent Cloudflare retries for permanent failures
      }
    }
  };
  \<close>
  \<open>email_body\<close> is the \<^verbatim>\<open>try\<close> block.
\<close>

definition email_body :: "message \<Rightarrow> env \<Rightarrow> runtime \<Rightarrow> world \<Rightarrow> unit result \<times> world" where
  "email_body message e rt w =
     (case new_EmailProcessor e of
        Inl err \<Rightarrow> (Inl err, w)
      | Inr processor \<Rightarrow> processEmail processor rt message w)"

definition email :: "message \<Rightarrow> env \<Rightarrow> runtime \<Rightarrow> world \<Rightarrow> unit result \<times> world" where
  "email message e rt w =
     (case email_body message e rt w of
        (Inl error, w') \<Rightarrow>
          (Inr (),
           w'\<lparr>console := console w' @
             [ConsoleError (js ''Worker email handler failed:'') (Some error)]\<rparr>)
      | (Inr u, w') \<Rightarrow> (Inr u, w'))"

section \<open>The specification's wording\<close>

text \<open>
  \<open>generateTopic\<close> as the specification words it: without an \<open>@\<close> the topic is
  \<open>unknown\<close>; otherwise the domain is the substring after the first \<open>@\<close>, every
  \<open>.\<close> in it becomes \<open>-\<close>, and an empty domain gives \<open>unknown\<close>.
\<close>

definition spec_generateTopic :: "jsstring \<Rightarrow> jsstring" where
  "spec_generateTopic addr =
     (if AT \<notin> set addr then js ''unknown''
      else (let domain = tl (dropWhile (\<lambda>c. c \<noteq> AT) addr)
            in if domain = [] then js ''unknown'' else replace_dots domain))"

text \<open>
  \<open>extractPlainText\<close> on a multipart message as the specification words it. The header
  block of a part is the text before the part's first blank line. A part is skipped when
  its header block does not contain \<open>Content-Type: text/plain\<close>; the body of a part is
  decoded according to the \<open>Content-Transfer-Encoding\<close> header of that part; the body of
  the first part that is left and yields one is returned, and without such a part the
  whole text is treated as a non-MIME message.
\<close>

definition spec_header_block :: "jsstring \<Rightarrow> jsstring" where
  "spec_header_block part =
     (case indexOf part CRLFCRLF of None \<Rightarrow> part | Some i \<Rightarrow> take i part)"

definition spec_part_encoding :: "jsstring \<Rightarrow> jsstring" where
  "spec_part_encoding part =
     (case encoding_match (spec_header_block part) of
        Some e \<Rightarrow> toLowerCase e
      | None \<Rightarrow> js ''7bit'')"

definition spec_extractPartBody :: "jsstring \<Rightarrow> jsstring option result" where
  "spec_extractPartBody part =
     (case indexOf part CRLFCRLF of
        None \<Rightarrow> Inr None
      | Some bodyStart \<Rightarrow>
          (let encoding = spec_part_encoding part;
               body = trim (slice_str part (bodyStart + 4));
               body = trim (remove_trailing_dashes body)
           in if body = [] then Inr None
              else if encoding = js ''quoted-printable''
                then Inr (Some (decodeQuotedPrintable body))
              else if encoding = js ''base64''
                then (case decodeBase64 body of Inl e \<Rightarrow> Inl e | Inr d \<Rightarrow> Inr (Some d))
              else Inr (Some body)))"

fun spec_first_part_body :: "jsstring list \<Rightarrow> jsstring option result" where
  "spec_first_part_body [] = Inr None"
| "spec_first_part_body (part # parts) =
     (if \<not> includes_str (spec_header_block part) (js ''Content-Type: text/plain'')
      then spec_first_part_body parts
      else case spec_extractPartBody part of
             Inl e \<Rightarrow> Inl e
           | Inr None \<Rightarrow> spec_first_part_body parts
           | Inr (Some body) \<Rightarrow>
               if body \<noteq> [] then Inr (Some body) else spec_first_part_body parts)"

definition spec_extractPlainText :: "jsstring \<Rightarrow> jsstring result" where
  "spec_extractPlainText raw =
     (if raw = [] then Inr []
      else case boundary_match raw of
             None \<Rightarrow> Inr (extractSimpleEmail raw)
           | Some boundary \<Rightarrow>
               (case spec_first_part_body (split raw (js ''--'' @ boundary)) of
                  Inl e \<Rightarrow> Inl e
                | Inr (Some body) \<Rightarrow> Inr body
                | Inr None \<Rightarrow> Inr (extractSimpleEmail raw)))"

section \<open>Example messages\<close>

text \<open>
  Two well-formed multipart messages. In the first the \<open>text/html\<close> part comes first and
  quotes the words \<open>Content-Type: text/plain\<close> in its body. In the second the
  \<open>text/plain\<close> part has no \<open>Content-Transfer-Encoding\<close> header, and its body is a
  sentence about that header.
\<close>

definition html_first_message :: jsstring where
  "html_first_message =
     js ''Content-Type: multipart/alternative; boundary='' @ [QUOTE] @ js ''B'' @ [QUOTE]
       @ CRLFCRLF
     @ js ''--B'' @ [CR, LF] @ js ''Content-Type: text/html'' @ CRLFCRLF
       @ js ''<p>Content-Type: text/plain</p>'' @ [CR, LF]
     @ js ''--B'' @ [CR, LF] @ js ''Content-Type: text/plain'' @ CRLFCRLF
       @ js ''real'' @ [CR, LF]
     @ js ''--B--'' @ [CR, LF]"

definition encoding_in_body_message :: jsstring where
  "encoding_in_body_message =
     js ''Content-Type: multipart/mixed; boundary='' @ [QUOTE] @ js ''B'' @ [QUOTE]
       @ CRLFCRLF
     @ js ''--B'' @ [CR, LF] @ js ''Content-Type: text/plain'' @ CRLFCRLF
       @ js ''Content-Transfer-Encoding: quoted-printable writes =41 for A'' @ [CR, LF]
     @ js ''--B--'' @ [CR, LF]"

section \<open>Properties\<close>

subsection \<open>Whitespace\<close>

lemma isWhiteSpace_CR [simp]: "isWhiteSpace CR"
  and isWhiteSpace_LF [simp]: "isWhiteSpace LF"
  and isWhiteSpace_SP [simp]: "isWhiteSpace SP"
  by (simp_all add: isWhiteSpace_def CR_def LF_def SP_def)

lemma SP_neq [simp]: "CR \<noteq> SP" "LF \<noteq> SP" "SP \<noteq> CR" "SP \<noteq> LF"
  by (simp_all add: CR_def LF_def SP_def)

lemma CR_neq_LF [simp]: "CR \<noteq> LF" "LF \<noteq> CR"
  by (simp_all add: CR_def LF_def)

lemma set_trim_subset: "set (trim s) \<subseteq> set s"
proof -
  have "set (trim s) \<subseteq> set (rev (dropWhile isWhiteSpace s))"
    unfolding trim_def using set_dropWhileD by fastforce
  also have "\<dots> \<subseteq> set s"
    using set_dropWhileD by fastforce
  finally show ?thesis .
qed

lemma replace_ws_runs_only_SP:
  "c \<in> set (replace_ws_runs s) \<Longrightarrow> isWhiteSpace c \<Longrightarrow> c = SP"
proof (induction s rule: replace_ws_runs.induct)
  case 1
  then show ?case by simp
next
  case (2 d ds)
  then show ?case by (auto split: if_splits)
qed

lemma trim_only_SP:
  "c \<in> set (trim (replace_ws_runs s)) \<Longrightarrow> isWhiteSpace c \<Longrightarrow> c = SP"
  using replace_ws_runs_only_SP set_trim_subset by blast

subsection \<open>Splitting at one character\<close>

lemma startsWith_single [simp]: "startsWith (x # xs) [c] \<longleftrightarrow> x = c"
  by (simp add: startsWith_def)

lemma indexOf_single:
  "indexOf s [c] = (if c \<in> set s then Some (length (takeWhile (\<lambda>x. x \<noteq> c) s)) else None)"
  by (induction s) auto

lemma includes_str_single: "includes_str s [c] \<longleftrightarrow> c \<in> set s"
  by (simp add: includes_str_def indexOf_single)

lemma split_single:
  "split s [c] =
     (if c \<in> set s
      then takeWhile (\<lambda>x. x \<noteq> c) s # split (tl (dropWhile (\<lambda>x. x \<noteq> c) s)) [c]
      else [s])"
proof (cases "c \<in> set s")
  case False
  have "split s [c] = [s]"
    by (subst split.simps) (simp add: indexOf_single False)
  with False show ?thesis by simp
next
  case True
  let ?n = "length (takeWhile (\<lambda>x. x \<noteq> c) s)"
  have a: "take ?n s = takeWhile (\<lambda>x. x \<noteq> c) s"
    by (rule takeWhile_eq_take [symmetric])
  have "drop (Suc ?n) s = tl (drop ?n s)"
    by (simp add: drop_Suc tl_drop)
  then have b: "drop (Suc ?n) s = tl (dropWhile (\<lambda>x. x \<noteq> c) s)"
    by (simp only: dropWhile_eq_drop)
  have "split s [c] = take ?n s # split (drop (Suc ?n) s) [c]"
    by (subst split.simps) (simp add: indexOf_single True)
  with True show ?thesis
    by (simp only: a b if_True)
qed

lemma split_single_Cons:
  "\<exists>ys. split s [c] = takeWhile (\<lambda>x. x \<noteq> c) s # ys"
proof (cases "c \<in> set s")
  case True
  then show ?thesis by (subst split_single) simp
next
  case False
  then have "takeWhile (\<lambda>x. x \<noteq> c) s = s"
    by auto
  moreover have "split s [c] = [s]"
    using False by (subst split_single) simp
  ultimately show ?thesis by metis
qed

lemma at_index_1_split:
  assumes "c \<in> set s"
  shows "at_index (split s [c]) (Suc 0)
           = Some (takeWhile (\<lambda>x. x \<noteq> c) (tl (dropWhile (\<lambda>x. x \<noteq> c) s)))"
proof -
  let ?rest = "tl (dropWhile (\<lambda>x. x \<noteq> c) s)"
  obtain ys where ys: "split ?rest [c] = takeWhile (\<lambda>x. x \<noteq> c) ?rest # ys"
    using split_single_Cons by blast
  have "split s [c] = takeWhile (\<lambda>x. x \<noteq> c) s # split ?rest [c]"
    using assms by (subst split_single) simp
  then show ?thesis by (simp add: ys)
qed


subsection \<open>Quoted-printable decoding\<close>

lemma startsWith_Cons_Cons [simp]:
  "startsWith (x # xs) (p # ps) \<longleftrightarrow> x = p \<and> startsWith xs ps"
  by (simp add: startsWith_def)

lemma startsWith_Nil [simp]: "startsWith s []"
  by (simp add: startsWith_def)

lemma startsWith_Nil_Cons [simp]: "\<not> startsWith [] (p # ps)"
  by (simp add: startsWith_def)

lemma remove_soft_breaks_no_EQ: "EQ \<notin> set s \<Longrightarrow> remove_soft_breaks s = s"
  by (induction s) auto

lemma replace_hex_escapes_no_EQ: "EQ \<notin> set s \<Longrightarrow> replace_hex_escapes s = s"
  by (induction s rule: replace_hex_escapes.induct) auto

lemma replace_hex_escapes_keep:
  assumes "\<not> (c = EQ \<and> (\<exists>h l r. rest = h # l # r \<and> isHexDigit h \<and> isHexDigit l))"
  shows "replace_hex_escapes (c # rest) = c # replace_hex_escapes rest"
proof (cases rest)
  case Nil
  then show ?thesis by simp
next
  case (Cons h r1)
  note c1 = this
  show ?thesis
  proof (cases r1)
    case Nil
    with c1 show ?thesis by simp
  next
    case (Cons l r)
    with c1 assms show ?thesis by auto
  qed
qed

lemma hexValue_upper: "d < 16 \<Longrightarrow> hexValue (js ''0123456789ABCDEF'' ! d) = of_nat d"
proof -
  assume "d < 16"
  then have "d = 0 \<or> d = 1 \<or> d = 2 \<or> d = 3 \<or> d = 4 \<or> d = 5 \<or> d = 6 \<or> d = 7
      \<or> d = 8 \<or> d = 9 \<or> d = 10 \<or> d = 11 \<or> d = 12 \<or> d = 13 \<or> d = 14 \<or> d = 15"
    by arith
  then show ?thesis
    by (auto simp: js_def hexValue_def)
qed

lemma hexValue_lower: "d < 16 \<Longrightarrow> hexValue (js ''0123456789abcdef'' ! d) = of_nat d"
proof -
  assume "d < 16"
  then have "d = 0 \<or> d = 1 \<or> d = 2 \<or> d = 3 \<or> d = 4 \<or> d = 5 \<or> d = 6 \<or> d = 7
      \<or> d = 8 \<or> d = 9 \<or> d = 10 \<or> d = 11 \<or> d = 12 \<or> d = 13 \<or> d = 14 \<or> d = 15"
    by arith
  then show ?thesis
    by (auto simp: js_def hexValue_def)
qed

lemma byte_split: "(16::jschar) * of_nat (n div 16) + of_nat (n mod 16) = of_nat n"
proof -
  have "(of_nat n :: jschar) = of_nat (16 * (n div 16) + n mod 16)"
    by (simp only: mult_div_mod_eq)
  also have "\<dots> = 16 * of_nat (n div 16) + of_nat (n mod 16)"
    by (simp only: of_nat_add of_nat_mult of_nat_numeral)
  finally show ?thesis by (rule sym)
qed

lemma fromHexPair_upper:
  "n < 256 \<Longrightarrow>
   fromHexPair (js ''0123456789ABCDEF'' ! (n div 16)) (js ''0123456789ABCDEF'' ! (n mod 16)) = of_nat n"
proof -
  assume "n < 256"
  then have "n div 16 < 16" "n mod 16 < 16" by auto
  then show ?thesis
    unfolding fromHexPair_def by (simp only: hexValue_upper byte_split)
qed

lemma fromHexPair_lower:
  "n < 256 \<Longrightarrow>
   fromHexPair (js ''0123456789abcdef'' ! (n div 16)) (js ''0123456789abcdef'' ! (n mod 16)) = of_nat n"
proof -
  assume "n < 256"
  then have "n div 16 < 16" "n mod 16 < 16" by auto
  then show ?thesis
    unfolding fromHexPair_def by (simp only: hexValue_lower byte_split)
qed


subsection \<open>The extractor never raises\<close>

lemma decodeBase64_value:
  "decodeBase64 input =
     Inr (if input = [] then []
          else case atob (remove_ws input) of Inr decoded \<Rightarrow> decoded | Inl error \<Rightarrow> input)"
  by (simp add: decodeBase64_def split: sum.splits)

lemma decodeBase64_Inr: "\<exists>r. decodeBase64 input = Inr r"
  using decodeBase64_value by blast

lemma extractPartBody_Inr: "\<exists>r. extractPartBody part = Inr r"
  by (simp add: extractPartBody_def Let_def decodeBase64_value split: option.splits)

lemma first_part_body_Inr: "\<exists>r. first_part_body parts = Inr r"
proof (induction parts)
  case Nil
  then show ?case by simp
next
  case (Cons part parts)
  obtain b where "extractPartBody part = Inr b"
    using extractPartBody_Inr by blast
  with Cons show ?case
    by (cases b) auto
qed

lemma extractPlainText_Inr: "\<exists>r. extractPlainText raw = Inr r"
proof (cases "boundary_match raw")
  case None
  then show ?thesis by (simp add: extractPlainText_def)
next
  case (Some boundary)
  obtain b where "first_part_body (split raw (js ''--'' @ boundary)) = Inr b"
    using first_part_body_Inr by blast
  with Some show ?thesis
    by (cases b) (simp_all add: extractPlainText_def)
qed


subsection \<open>The sender and the handlers\<close>

lemma new_EmailProcessor_Inr:
  assumes "new_EmailProcessor e = Inr this"
  shows "this = \<lparr>this_env = e\<rparr> \<and> (\<exists>server. NTFY_SERVER e = Some server \<and> server \<noteq> [])"
  using assms
  by (auto simp: new_EmailProcessor_def validateEnvironment_def truthy_def Let_def
           split: if_splits option.splits)

lemma new_EmailProcessor_Inl:
  assumes "\<not> truthy (NTFY_SERVER e)"
  shows "new_EmailProcessor e = Inl (Error (js ''NTFY_SERVER environment variable is required''))"
  using assms by (simp add: new_EmailProcessor_def validateEnvironment_def)

lemma sendNotification_reject:
  assumes "NTFY_SERVER (this_env this) = Some server"
    and "rt_fetch rt (notification_request server topic payload subject recipient) = Inl err"
  shows "sendNotification this rt topic payload subject recipient w =
     (Inl err,
      w\<lparr>fetched := fetched w @ [notification_request server topic payload subject recipient],
        console := console w @
          [ConsoleError (js ''Failed to send ntfy notification:'') (Some err)]\<rparr>)"
  using assms by (simp add: sendNotification_def Let_def)

lemma sendNotification_not_ok:
  assumes "NTFY_SERVER (this_env this) = Some server"
    and "rt_fetch rt (notification_request server topic payload subject recipient) = Inr resp"
    and "\<not> resp_ok resp"
  shows "sendNotification this rt topic payload subject recipient w =
     (Inr (),
      w\<lparr>fetched := fetched w @ [notification_request server topic payload subject recipient],
        console := console w @
          [ConsoleError (js ''ntfy request failed: '' @ number_toString (resp_status resp)
             @ js '' '' @ resp_statusText resp) None]\<rparr>)"
  using assms by (simp add: sendNotification_def Let_def)

lemma sendNotification_ok:
  assumes "NTFY_SERVER (this_env this) = Some server"
    and "rt_fetch rt (notification_request server topic payload subject recipient) = Inr resp"
    and "resp_ok resp"
  shows "sendNotification this rt topic payload subject recipient w =
     (Inr (),
      w\<lparr>fetched := fetched w @ [notification_request server topic payload subject recipient]\<rparr>)"
  using assms by (simp add: sendNotification_def Let_def)

lemma sendNotification_fetched:
  assumes "NTFY_SERVER (this_env this) = Some server"
  shows "fetched (snd (sendNotification this rt topic payload subject recipient w)) =
           fetched w @ [notification_request server topic payload subject recipient]"
  using assms by (simp add: sendNotification_def Let_def split: sum.splits)

lemma sendNotification_raises_iff:
  assumes "NTFY_SERVER (this_env this) = Some server"
  shows "fst (sendNotification this rt topic payload subject recipient w) = Inl err
           \<longleftrightarrow> rt_fetch rt (notification_request server topic payload subject recipient) = Inl err"
  using assms by (simp add: sendNotification_def Let_def split: sum.splits)

lemma processEmail_body_raw_error:
  assumes "msg_raw_text message = Inl err"
  shows "processEmail_body this rt message w = (Inl err, w)"
  using assms by (simp add: processEmail_body_def Let_def)

lemma processEmail_body_sends:
  assumes "msg_raw_text message = Inr raw" and "extractPlainText raw = Inr text"
  shows "processEmail_body this rt message w =
     (let recipient = or_else (msg_to message) [];
          sender = or_else (msg_headers_get message (js ''from''))
                     (or_else (msg_from message) (js ''(unknown sender)''));
          subject = or_else (msg_headers_get message (js ''subject'')) (js ''(no subject)'');
          date = or_else (msg_headers_get message (js ''date'')) (rt_now rt);
          payload = buildMarkdownPayload
                      \<lparr>ed_from = sender, ed_to = recipient, ed_subject = subject,
                       ed_date = date, ed_body = truncateText (cleanBodyText text) 1000\<rparr>
      in case sendNotification this rt (generateTopic recipient) payload subject recipient w of
           (Inl e, w') \<Rightarrow> (Inl e, w')
         | (Inr _, w') \<Rightarrow>
             (Inr (),
              w'\<lparr>console := console w' @
                [ConsoleLog (js ''Email notification sent for: '' @ subject)]\<rparr>))"
  using assms by (simp add: processEmail_body_def Let_def)

lemma processEmail_fst: "fst (processEmail this rt message w) = fst (processEmail_body this rt message w)"
  by (simp add: processEmail_def split: prod.splits sum.splits)

lemma processEmail_fetched:
  "fetched (snd (processEmail this rt message w)) = fetched (snd (processEmail_body this rt message w))"
  by (simp add: processEmail_def split: prod.splits sum.splits)

lemma or_else_eq:
  "or_else a b = (if truthy a then the a else b)"
  by (simp add: or_else_def truthy_def split: option.splits)

lemma generateTopic_Nil: "generateTopic [] = js ''unknown''"
  by (simp add: generateTopic_def)

lemma fetched_after_log:
  "fetched (snd (case r of (Inl e, w') \<Rightarrow> (Inl e, w')
                          | (Inr u, w') \<Rightarrow> (Inr (), w'\<lparr>console := f w'\<rparr>)))
     = fetched (snd (r :: unit result \<times> world))"
  by (simp split: prod.splits sum.splits)

subsection \<open>The first occurrence of a pattern\<close>

lemma startsWith_Nil_left: "startsWith [] p \<longleftrightarrow> p = []"
  by (cases p) simp_all

lemma indexOf_first:
  "i \<le> length s \<Longrightarrow> startsWith (drop i s) p \<Longrightarrow> (\<forall>j<i. \<not> startsWith (drop j s) p)
     \<Longrightarrow> indexOf s p = Some i"
proof (induction s arbitrary: i)
  case Nil
  then show ?case by (simp add: startsWith_Nil_left)
next
  case (Cons c cs)
  show ?case
  proof (cases i)
    case 0
    with Cons.prems show ?thesis by simp
  next
    case (Suc k)
    have n0: "\<not> startsWith (c # cs) p"
      using Cons.prems(3) Suc by (metis drop0 zero_less_Suc)
    have "\<forall>j<k. \<not> startsWith (drop j cs) p"
    proof (intro allI impI)
      fix j assume "j < k"
      then have "Suc j < i" using Suc by simp
      then have "\<not> startsWith (drop (Suc j) (c # cs)) p"
        using Cons.prems(3) by blast
      then show "\<not> startsWith (drop j cs) p" by simp
    qed
    moreover have "k \<le> length cs" "startsWith (drop k cs) p"
      using Cons.prems Suc by simp_all
    ultimately have "indexOf cs p = Some k"
      using Cons.IH by blast
    with n0 Suc show ?thesis by simp
  qed
qed

lemma indexOf_absent:
  "(\<forall>j\<le>length s. \<not> startsWith (drop j s) p) \<Longrightarrow> indexOf s p = None"
proof (induction s)
  case Nil
  then show ?case by (simp add: startsWith_Nil_left)
next
  case (Cons c cs)
  have n0: "\<not> startsWith (c # cs) p"
    using Cons.prems by (metis drop0 le0)
  have "\<forall>j\<le>length cs. \<not> startsWith (drop j cs) p"
  proof (intro allI impI)
    fix j assume "j \<le> length cs"
    then have "\<not> startsWith (drop (Suc j) (c # cs)) p"
      using Cons.prems by (metis Suc_le_mono length_Cons)
    then show "\<not> startsWith (drop j cs) p" by simp
  qed
  then have "indexOf cs p = None"
    using Cons.IH by blast
  with n0 show ?case by simp
qed

lemma startsWith_append: "startsWith (p @ s) p"
  by (simp add: startsWith_def)

lemma extractSimpleEmail_split:
  assumes "raw = h @ CRLFCRLF @ b" and "\<forall>j<length h. \<not> startsWith (drop j raw) CRLFCRLF"
  shows "extractSimpleEmail raw = trim b"
proof -
  have "startsWith (drop (length h) raw) CRLFCRLF"
    using assms(1) by (simp add: startsWith_append)
  moreover have "length h \<le> length raw"
    using assms(1) by simp
  ultimately have "indexOf raw CRLFCRLF = Some (length h)"
    using assms(2) indexOf_first by blast
  moreover have "drop (length h + 4) raw = b"
    using assms(1) by (simp add: CRLFCRLF_def)
  ultimately show ?thesis
    by (simp add: extractSimpleEmail_def slice_str_def)
qed

lemma extractSimpleEmail_whole:
  assumes "\<forall>j. \<not> startsWith (drop j raw) CRLFCRLF"
  shows "extractSimpleEmail raw = trim raw"
proof -
  have "indexOf raw CRLFCRLF = None"
    using assms indexOf_absent by blast
  then show ?thesis by (simp add: extractSimpleEmail_def)
qed

lemma extractSimpleEmail_Nil: "extractSimpleEmail [] = []"
  by (simp add: extractSimpleEmail_def CRLFCRLF_def trim_def)

lemma indexOf_SomeD:
  "indexOf s p = Some i \<Longrightarrow> j < i \<Longrightarrow> \<not> startsWith (drop j s) p"
proof (induction s arbitrary: i j)
  case Nil
  then show ?case by (simp split: if_splits)
next
  case (Cons c cs)
  from Cons.prems have n0: "\<not> startsWith (c # cs) p"
    by (auto split: if_splits)
  with Cons.prems obtain k where k: "indexOf cs p = Some k" "i = Suc k"
    by auto
  show ?case
  proof (cases j)
    case 0
    with n0 show ?thesis by simp
  next
    case (Suc j')
    with k Cons.prems(2) have "j' < k" by simp
    with Cons.IH k(1) have "\<not> startsWith (drop j' cs) p" by blast
    with Suc show ?thesis by simp
  qed
qed

lemma indexOf_NoneD:
  "indexOf s p = None \<Longrightarrow> \<not> startsWith (drop j s) p"
proof (induction s arbitrary: j)
  case Nil
  then show ?case by (simp add: startsWith_Nil_left split: if_splits)
next
  case (Cons c cs)
  from Cons.prems have n0: "\<not> startsWith (c # cs) p" and n1: "indexOf cs p = None"
    by (auto split: if_splits)
  show ?case
  proof (cases j)
    case 0
    with n0 show ?thesis by simp
  next
    case (Suc j')
    with Cons.IH n1 show ?thesis by simp
  qed
qed

section \<open>Claims\<close>

text \<open>
  C1. \<open>cleanBodyText\<close> is to drop every line whose trimmed content begins with \<open>>\<close>
  and to rejoin the others with line feeds, so that
  \<open>cleanBodyText("Line 1\n> quoted\nLine 2")\<close> is \<open>"Line 1\nLine 2"\<close>. The code replaces
  every whitespace run, line feeds included, by a space before it splits into lines: on
  this input it returns the one line \<open>"Line 1 > quoted Line 2"\<close>.
\<close>

theorem cleanBodyText_joins_lines_before_filter:
  "cleanBodyText (js ''Line 1'' @ [LF] @ js ''> quoted'' @ [LF] @ js ''Line 2'')
     = js ''Line 1 > quoted Line 2''
   \<and> cleanBodyText (js ''Line 1'' @ [LF] @ js ''> quoted'' @ [LF] @ js ''Line 2'')
     \<noteq> js ''Line 1'' @ [LF] @ js ''Line 2''"
  by code_simp

text \<open>
  C2 (as stated, refuted). The topic is not always made from the whole substring after
  the first \<open>@\<close>: for \<open>a@b.c@d.e\<close> that reading gives \<open>b-c@d-e\<close>, the code returns
  \<open>b-c\<close>.
\<close>

theorem generateTopic_after_first_at_counterexample:
  "generateTopic (js ''a@b.c@d.e'') = js ''b-c''
   \<and> spec_generateTopic (js ''a@b.c@d.e'') = js ''b-c@d-e''
   \<and> generateTopic (js ''a@b.c@d.e'') \<noteq> spec_generateTopic (js ''a@b.c@d.e'')"
  by code_simp

text \<open>
  C2 (amended). For every input string, \<open>generateTopic\<close> returns \<open>unknown\<close> when the
  address has no \<open>@\<close>; otherwise it takes the text between the first \<open>@\<close> and the next
  \<open>@\<close> (or the end of the string), returns \<open>unknown\<close> when that text is empty and
  else that text with every \<open>.\<close> replaced by \<open>-\<close>. \<open>generateTopic("user@sub.example.com")\<close>
  is \<open>"sub-example-com"\<close> and \<open>generateTopic("not-an-email")\<close> is \<open>"unknown"\<close>.
\<close>

theorem generateTopic_segment:
  "generateTopic addr =
     (if AT \<notin> set addr then js ''unknown''
      else (let domain = takeWhile (\<lambda>c. c \<noteq> AT) (tl (dropWhile (\<lambda>c. c \<noteq> AT) addr))
            in if domain = [] then js ''unknown'' else replace_dots domain))
   \<and> generateTopic (js ''user@sub.example.com'') = js ''sub-example-com''
   \<and> generateTopic (js ''not-an-addr'') = js ''unknown''"
proof -
  have gen: "generateTopic addr =
     (if AT \<notin> set addr then js ''unknown''
      else (let domain = takeWhile (\<lambda>c. c \<noteq> AT) (tl (dropWhile (\<lambda>c. c \<noteq> AT) addr))
            in if domain = [] then js ''unknown'' else replace_dots domain))"
  proof (cases "AT \<in> set addr")
    case False
    then show ?thesis by (simp add: generateTopic_def includes_str_single)
  next
    case True
    then have "addr \<noteq> []" by auto
    with True show ?thesis
      by (simp add: generateTopic_def includes_str_single at_index_1_split Let_def)
  qed
  have e1: "generateTopic (js ''user@sub.example.com'') = js ''sub-example-com''"
    by code_simp
  have e2: "generateTopic (js ''not-an-addr'') = js ''unknown''"
    by code_simp
  from gen e1 e2 show ?thesis by blast
qed

theorem generateTopic_segment_witness:
  "generateTopic (js ''a@b.c@d.e'') = js ''b-c''"
proof -
  have "generateTopic (js ''a@b.c@d.e'') =
     (if AT \<notin> set (js ''a@b.c@d.e'') then js ''unknown''
      else (let domain = takeWhile (\<lambda>c. c \<noteq> AT) (tl (dropWhile (\<lambda>c. c \<noteq> AT) (js ''a@b.c@d.e'')))
            in if domain = [] then js ''unknown'' else replace_dots domain))"
    using generateTopic_segment [of "js ''a@b.c@d.e''"] by blast
  also have "\<dots> = js ''b-c''"
    by (simp add: js_def AT_def DOT_def DASH_def replace_dots_def)
  finally show ?thesis .
qed

text \<open>
  C3. On a multipart message \<open>extractPlainText\<close> is to skip every part whose header block
  has no \<open>Content-Type: text/plain\<close>, and to decode the body of the part it takes by
  that part's \<open>Content-Transfer-Encoding\<close>. The code looks for both texts in the whole
  part, body included, although \<open>extractPartBody\<close> itself finds the blank line that ends
  the header block. On \<open>html_first_message\<close> the second piece of the split is the
  \<open>text/html\<close> part; its header block has no \<open>Content-Type: text/plain\<close>, yet its body
  is returned, where skipping by header block gives the body \<open>real\<close> of the \<open>text/plain\<close>
  part. On \<open>encoding_in_body_message\<close> the \<open>text/plain\<close> part has no encoding header,
  yet its body is decoded as quoted-printable (\<open>=41\<close> becomes \<open>A\<close>), where decoding
  by the header leaves it unchanged.
\<close>

theorem extractPlainText_scans_whole_part:
  "boundary_match html_first_message = Some (js ''B'')
   \<and> at_index (split html_first_message (js ''--B'')) 1
       = Some ([CR, LF] @ js ''Content-Type: text/html'' @ CRLFCRLF
               @ js ''<p>Content-Type: text/plain</p>'' @ [CR, LF])
   \<and> \<not> includes_str
         (spec_header_block ([CR, LF] @ js ''Content-Type: text/html'' @ CRLFCRLF
                             @ js ''<p>Content-Type: text/plain</p>'' @ [CR, LF]))
         (js ''Content-Type: text/plain'')
   \<and> extractPlainText html_first_message = Inr (js ''<p>Content-Type: text/plain</p>'')
   \<and> spec_extractPlainText html_first_message = Inr (js ''real'')
   \<and> boundary_match encoding_in_body_message = Some (js ''B'')
   \<and> at_index (split encoding_in_body_message (js ''--B'')) 1
       = Some ([CR, LF] @ js ''Content-Type: text/plain'' @ CRLFCRLF
               @ js ''Content-Transfer-Encoding: quoted-printable writes =41 for A''
               @ [CR, LF])
   \<and> encoding_match
         (spec_header_block ([CR, LF] @ js ''Content-Type: text/plain'' @ CRLFCRLF
            @ js ''Content-Transfer-Encoding: quoted-printable writes =41 for A''
            @ [CR, LF])) = None
   \<and> extractPlainText encoding_in_body_message
       = Inr (js ''Content-Transfer-Encoding: quoted-printable writes A for A'')
   \<and> spec_extractPlainText encoding_in_body_message
       = Inr (js ''Content-Transfer-Encoding: quoted-printable writes =41 for A'')"
proof -
  have a1: "boundary_match html_first_message = Some (js ''B'')"
    by code_simp
  have a2: "at_index (split html_first_message (js ''--B'')) 1
       = Some ([CR, LF] @ js ''Content-Type: text/html'' @ CRLFCRLF
               @ js ''<p>Content-Type: text/plain</p>'' @ [CR, LF])"
    by code_simp
  have a3: "\<not> includes_str
         (spec_header_block ([CR, LF] @ js ''Content-Type: text/html'' @ CRLFCRLF
                             @ js ''<p>Content-Type: text/plain</p>'' @ [CR, LF]))
         (js ''Content-Type: text/plain'')"
    by code_simp
  have a4: "extractPlainText html_first_message = Inr (js ''<p>Content-Type: text/plain</p>'')"
    by code_simp
  have a5: "spec_extractPlainText html_first_message = Inr (js ''real'')"
    by code_simp
  have b1: "boundary_match encoding_in_body_message = Some (js ''B'')"
    by code_simp
  have b2: "at_index (split encoding_in_body_message (js ''--B'')) 1
       = Some ([CR, LF] @ js ''Content-Type: text/plain'' @ CRLFCRLF
               @ js ''Content-Transfer-Encoding: quoted-printable writes =41 for A''
               @ [CR, LF])"
    by code_simp
  have b3: "encoding_match
         (spec_header_block ([CR, LF] @ js ''Content-Type: text/plain'' @ CRLFCRLF
            @ js ''Content-Transfer-Encoding: quoted-printable writes =41 for A''
            @ [CR, LF])) = None"
    by code_simp
  have b4: "extractPlainText encoding_in_body_message
       = Inr (js ''Content-Transfer-Encoding: quoted-printable writes A for A'')"
    by code_simp
  have b5: "spec_extractPlainText encoding_in_body_message
       = Inr (js ''Content-Transfer-Encoding: quoted-printable writes =41 for A'')"
    by code_simp
  from a1 a2 a3 a4 a5 b1 b2 b3 b4 b5 show ?thesis by blast
qed

text \<open>
  C4. \<open>decodeBase64\<close> never raises. For every input string it removes all whitespace and
  decodes what is left; when that decoding fails it returns the input string itself,
  whitespace included.
\<close>

theorem decodeBase64_never_raises:
  "(\<exists>r. decodeBase64 input = Inr r)
   \<and> (\<forall>d. atob (remove_ws input) = Inr d \<longrightarrow> decodeBase64 input = Inr d)
   \<and> (\<forall>e. atob (remove_ws input) = Inl e \<longrightarrow> decodeBase64 input = Inr input)
   \<and> remove_ws input = filter (\<lambda>c. \<not> isWhiteSpace c) input
   \<and> decodeBase64 (js ''not base64!'') = Inr (js ''not base64!'')
   \<and> decodeBase64 (js ''VGVzdCBi'' @ [CR, LF] @ js ''YXNlNjQ='') = Inr (js ''Test base64'')"
proof -
  have p1: "\<exists>r. decodeBase64 input = Inr r"
    by (rule decodeBase64_Inr)
  have a0: "atob (remove_ws []) = Inr []"
    by code_simp
  have p2: "\<forall>d. atob (remove_ws input) = Inr d \<longrightarrow> decodeBase64 input = Inr d"
    using a0 by (cases "input = []") (auto simp: decodeBase64_def)
  have p3: "\<forall>e. atob (remove_ws input) = Inl e \<longrightarrow> decodeBase64 input = Inr input"
    using a0 by (cases "input = []") (auto simp: decodeBase64_def)
  have p4: "remove_ws input = filter (\<lambda>c. \<not> isWhiteSpace c) input"
    by (simp add: remove_ws_def)
  have p5: "decodeBase64 (js ''not base64!'') = Inr (js ''not base64!'')"
    by code_simp
  have p6: "decodeBase64 (js ''VGVzdCBi'' @ [CR, LF] @ js ''YXNlNjQ='') = Inr (js ''Test base64'')"
    by code_simp
  from p1 p2 p3 p4 p5 p6 show ?thesis by blast
qed

theorem decodeBase64_never_raises_witness:
  "atob (remove_ws (js ''a b!'')) = Inl InvalidCharacterError
   \<and> decodeBase64 (js ''a b!'') = Inr (js ''a b!'')"
proof -
  have h: "atob (remove_ws (js ''a b!'')) = Inl InvalidCharacterError"
    by code_simp
  with decodeBase64_never_raises [of "js ''a b!''"] show ?thesis by blast
qed

text \<open>
  C5. For every message and environment, the handler \<open>email\<close> resolves without raising.
  Whatever the handling raised is written to the error log under
  \<open>Worker email handler failed:\<close> and is not raised again; that covers the missing
  \<open>NTFY_SERVER\<close> (the constructor's error), a request that \<open>fetch\<close> rejects, and a raw
  message that cannot be read.
\<close>

theorem email_never_raises:
  "fst (email message e rt w) = Inr ()
   \<and> (\<forall>err. fst (email_body message e rt w) = Inl err \<longrightarrow>
         console (snd (email message e rt w)) =
           console (snd (email_body message e rt w)) @
             [ConsoleError (js ''Worker email handler failed:'') (Some err)])
   \<and> (\<not> truthy (NTFY_SERVER e) \<longrightarrow>
         email_body message e rt w =
           (Inl (Error (js ''NTFY_SERVER environment variable is required'')), w))
   \<and> (\<forall>raw err. truthy (NTFY_SERVER e) \<and> msg_raw_text message = Inr raw
                  \<and> (\<forall>req. rt_fetch rt req = Inl err) \<longrightarrow>
         fst (email_body message e rt w) = Inl err)
   \<and> (\<forall>err. msg_raw_text message = Inl err \<and> truthy (NTFY_SERVER e) \<longrightarrow>
         fst (email_body message e rt w) = Inl err)"
proof -
  have p1: "fst (email message e rt w) = Inr ()"
    by (simp add: email_def split: prod.splits sum.splits)
  have p2: "\<forall>err. fst (email_body message e rt w) = Inl err \<longrightarrow>
         console (snd (email message e rt w)) =
           console (snd (email_body message e rt w)) @
             [ConsoleError (js ''Worker email handler failed:'') (Some err)]"
    by (auto simp: email_def split: prod.splits sum.splits)
  have p3: "\<not> truthy (NTFY_SERVER e) \<longrightarrow>
         email_body message e rt w =
           (Inl (Error (js ''NTFY_SERVER environment variable is required'')), w)"
    by (simp add: email_body_def new_EmailProcessor_Inl)
  have p4: "\<forall>raw err. truthy (NTFY_SERVER e) \<and> msg_raw_text message = Inr raw
                  \<and> (\<forall>req. rt_fetch rt req = Inl err) \<longrightarrow>
         fst (email_body message e rt w) = Inl err"
  proof (intro allI impI)
    fix raw err
    assume h: "truthy (NTFY_SERVER e) \<and> msg_raw_text message = Inr raw
                  \<and> (\<forall>req. rt_fetch rt req = Inl err)"
    then obtain server where s: "NTFY_SERVER e = Some server" "server \<noteq> []"
      by (auto simp: truthy_def split: option.splits)
    then have np: "new_EmailProcessor e = Inr \<lparr>this_env = e\<rparr>"
      by (simp add: new_EmailProcessor_def validateEnvironment_def truthy_def)
    obtain plain where t: "extractPlainText raw = Inr plain"
      using extractPlainText_Inr by blast
    have s': "NTFY_SERVER (this_env \<lparr>this_env = e\<rparr>) = Some server"
      using s by simp
    have "fst (processEmail_body \<lparr>this_env = e\<rparr> rt message w) = Inl err"
      using h t sendNotification_reject [OF s', of rt _ _ _ _ err w]
      by (simp add: processEmail_body_sends [of message raw plain] Let_def)
    then show "fst (email_body message e rt w) = Inl err"
      by (simp add: email_body_def np processEmail_fst)
  qed
  have p5: "\<forall>err. msg_raw_text message = Inl err \<and> truthy (NTFY_SERVER e) \<longrightarrow>
         fst (email_body message e rt w) = Inl err"
  proof (intro allI impI)
    fix err
    assume h: "msg_raw_text message = Inl err \<and> truthy (NTFY_SERVER e)"
    then have np: "new_EmailProcessor e = Inr \<lparr>this_env = e\<rparr>"
      by (auto simp: new_EmailProcessor_def validateEnvironment_def)
    show "fst (email_body message e rt w) = Inl err"
      using h by (simp add: email_body_def np processEmail_fst processEmail_body_raw_error)
  qed
  from p1 p2 p3 p4 p5 show ?thesis by blast
qed

theorem email_never_raises_witness:
  "fst (email \<lparr>msg_to = Some (js ''user@example.com''), msg_from = Some (js ''a@b.c''),
               msg_headers_get = (\<lambda>name. Some []),
               msg_raw_text = Inr (js ''Subject: x'' @ CRLFCRLF @ js ''Hello world!'')\<rparr>
          \<lparr>NTFY_SERVER = None\<rparr>
          \<lparr>rt_fetch = (\<lambda>req. Inl (TypeError (js ''fetch failed''))), rt_now = js ''now''\<rparr>
          \<lparr>console = [], fetched = []\<rparr>) = Inr ()
   \<and> console (snd (email \<lparr>msg_to = Some (js ''user@example.com''), msg_from = Some (js ''a@b.c''),
               msg_headers_get = (\<lambda>name. Some []),
               msg_raw_text = Inr (js ''Subject: x'' @ CRLFCRLF @ js ''Hello world!'')\<rparr>
          \<lparr>NTFY_SERVER = None\<rparr>
          \<lparr>rt_fetch = (\<lambda>req. Inl (TypeError (js ''fetch failed''))), rt_now = js ''now''\<rparr>
          \<lparr>console = [], fetched = []\<rparr>))
       = [ConsoleError (js ''Worker email handler failed:'')
            (Some (Error (js ''NTFY_SERVER environment variable is required'')))]
   \<and> fst (email \<lparr>msg_to = Some (js ''user@example.com''), msg_from = Some (js ''a@b.c''),
               msg_headers_get = (\<lambda>name. Some []),
               msg_raw_text = Inr (js ''Subject: x'' @ CRLFCRLF @ js ''Hello world!'')\<rparr>
          \<lparr>NTFY_SERVER = Some (js ''https://ntfy.example.com'')\<rparr>
          \<lparr>rt_fetch = (\<lambda>req. Inl (TypeError (js ''fetch failed''))), rt_now = js ''now''\<rparr>
          \<lparr>console = [], fetched = []\<rparr>) = Inr ()
   \<and> console (snd (email \<lparr>msg_to = Some (js ''user@example.com''), msg_from = Some (js ''a@b.c''),
               msg_headers_get = (\<lambda>name. Some []),
               msg_raw_text = Inr (js ''Subject: x'' @ CRLFCRLF @ js ''Hello world!'')\<rparr>
          \<lparr>NTFY_SERVER = Some (js ''https://ntfy.example.com'')\<rparr>
          \<lparr>rt_fetch = (\<lambda>req. Inl (TypeError (js ''fetch failed''))), rt_now = js ''now''\<rparr>
          \<lparr>console = [], fetched = []\<rparr>))
       = [ConsoleError (js ''Failed to send ntfy notification:'')
            (Some (TypeError (js ''fetch failed''))),
          ConsoleError (js ''Email processing failed:'')
            (Some (TypeError (js ''fetch failed''))),
          ConsoleError (js ''Worker email handler failed:'')
            (Some (TypeError (js ''fetch failed'')))]"
proof -
  let ?m = "\<lparr>msg_to = Some (js ''user@example.com''), msg_from = Some (js ''a@b.c''),
               msg_headers_get = (\<lambda>name. Some []),
               msg_raw_text = Inr (js ''Subject: x'' @ CRLFCRLF @ js ''Hello world!'')\<rparr>"
  let ?rt = "\<lparr>rt_fetch = (\<lambda>req. Inl (TypeError (js ''fetch failed''))), rt_now = js ''now''\<rparr>"
  let ?w = "\<lparr>console = [], fetched = []\<rparr>"
  let ?e1 = "\<lparr>NTFY_SERVER = None\<rparr>"
  let ?e2 = "\<lparr>NTFY_SERVER = Some (js ''https://ntfy.example.com'')\<rparr>"
  note t1 = email_never_raises [of ?m ?e1 ?rt ?w]
  note t2 = email_never_raises [of ?m ?e2 ?rt ?w]
  have b1: "email_body ?m ?e1 ?rt ?w =
              (Inl (Error (js ''NTFY_SERVER environment variable is required'')), ?w)"
    by code_simp
  have b2: "fst (email_body ?m ?e2 ?rt ?w) = Inl (TypeError (js ''fetch failed''))"
    by code_simp
  have c2: "console (snd (email_body ?m ?e2 ?rt ?w)) =
              [ConsoleError (js ''Failed to send ntfy notification:'')
                 (Some (TypeError (js ''fetch failed''))),
               ConsoleError (js ''Email processing failed:'')
                 (Some (TypeError (js ''fetch failed'')))]"
    by code_simp
  have r1: "console (snd (email ?m ?e1 ?rt ?w))
       = [ConsoleError (js ''Worker email handler failed:'')
            (Some (Error (js ''NTFY_SERVER environment variable is required'')))]"
    using t1 b1 by simp
  have r2: "console (snd (email ?m ?e2 ?rt ?w))
       = [ConsoleError (js ''Failed to send ntfy notification:'')
            (Some (TypeError (js ''fetch failed''))),
          ConsoleError (js ''Email processing failed:'')
            (Some (TypeError (js ''fetch failed''))),
          ConsoleError (js ''Worker email handler failed:'')
            (Some (TypeError (js ''fetch failed'')))]"
    using t2 b2 c2 by simp
  from t1 t2 r1 r2 show ?thesis by blast
qed

text \<open>
  C6. For a processor that its constructor accepted, \<open>sendNotification\<close> raises exactly
  when \<open>fetch\<close> itself rejects: it then writes the failure to the error log and raises
  the same error. When \<open>fetch\<close> answers with a response whose status is not a success,
  the status is written to the error log and nothing is raised; with a successful response
  nothing is written and nothing is raised. The request is handed to \<open>fetch\<close> in every case.
\<close>

theorem sendNotification_raises_iff_fetch_rejects:
  assumes "new_EmailProcessor e = Inr this"
  shows "\<exists>server. NTFY_SERVER (this_env this) = Some server \<and>
     (let req = notification_request server topic payload subject recipient;
          w1 = w\<lparr>fetched := fetched w @ [req]\<rparr>;
          r = sendNotification this rt topic payload subject recipient w
      in (\<forall>err. fst r = Inl err \<longleftrightarrow> rt_fetch rt req = Inl err)
       \<and> (\<forall>err. rt_fetch rt req = Inl err \<longrightarrow>
            r = (Inl err, w1\<lparr>console := console w @
                   [ConsoleError (js ''Failed to send ntfy notification:'') (Some err)]\<rparr>))
       \<and> (\<forall>resp. rt_fetch rt req = Inr resp \<and> \<not> resp_ok resp \<longrightarrow>
            r = (Inr (), w1\<lparr>console := console w @
                   [ConsoleError (js ''ntfy request failed: ''
                      @ number_toString (resp_status resp) @ js '' ''
                      @ resp_statusText resp) None]\<rparr>))
       \<and> (\<forall>resp. rt_fetch rt req = Inr resp \<and> resp_ok resp \<longrightarrow> r = (Inr (), w1)))"
proof -
  obtain server where s: "NTFY_SERVER (this_env this) = Some server"
    using new_EmailProcessor_Inr [OF assms] by auto
  show ?thesis
  proof (rule exI [of _ server], rule conjI [OF s], unfold Let_def, intro conjI allI impI)
    fix err
    show "fst (sendNotification this rt topic payload subject recipient w) = Inl err
            \<longleftrightarrow> rt_fetch rt (notification_request server topic payload subject recipient) = Inl err"
      by (rule sendNotification_raises_iff [OF s])
  next
    fix err
    assume "rt_fetch rt (notification_request server topic payload subject recipient) = Inl err"
    then show "sendNotification this rt topic payload subject recipient w =
      (Inl err,
       w\<lparr>fetched := fetched w @ [notification_request server topic payload subject recipient],
         console := console w @
           [ConsoleError (js ''Failed to send ntfy notification:'') (Some err)]\<rparr>)"
      by (rule sendNotification_reject [OF s])
  next
    fix resp
    assume "rt_fetch rt (notification_request server topic payload subject recipient) = Inr resp
            \<and> \<not> resp_ok resp"
    then show "sendNotification this rt topic payload subject recipient w =
      (Inr (),
       w\<lparr>fetched := fetched w @ [notification_request server topic payload subject recipient],
         console := console w @
           [ConsoleError (js ''ntfy request failed: '' @ number_toString (resp_status resp)
              @ js '' '' @ resp_statusText resp) None]\<rparr>)"
      using sendNotification_not_ok [OF s] by blast
  next
    fix resp
    assume "rt_fetch rt (notification_request server topic payload subject recipient) = Inr resp
            \<and> resp_ok resp"
    then show "sendNotification this rt topic payload subject recipient w =
      (Inr (),
       w\<lparr>fetched := fetched w @ [notification_request server topic payload subject recipient]\<rparr>)"
      using sendNotification_ok [OF s] by blast
  qed
qed

theorem sendNotification_raises_iff_fetch_rejects_witness:
  "new_EmailProcessor \<lparr>NTFY_SERVER = Some (js ''https://ntfy.example.com/'')\<rparr>
     = Inr \<lparr>this_env = \<lparr>NTFY_SERVER = Some (js ''https://ntfy.example.com/'')\<rparr>\<rparr>
   \<and> sendNotification \<lparr>this_env = \<lparr>NTFY_SERVER = Some (js ''https://ntfy.example.com/'')\<rparr>\<rparr>
        \<lparr>rt_fetch = (\<lambda>req. Inl (TypeError (js ''fetch failed''))), rt_now = []\<rparr>
        (js ''example-com'') (js ''hello'') (js ''Hi'') (js ''u@example.com'')
        \<lparr>console = [], fetched = []\<rparr>
     = (Inl (TypeError (js ''fetch failed'')),
        \<lparr>console = [ConsoleError (js ''Failed to send ntfy notification:'')
                      (Some (TypeError (js ''fetch failed'')))],
         fetched = [notification_request (js ''https://ntfy.example.com/'') (js ''example-com'')
                      (js ''hello'') (js ''Hi'') (js ''u@example.com'')]\<rparr>)
   \<and> sendNotification \<lparr>this_env = \<lparr>NTFY_SERVER = Some (js ''https://ntfy.example.com/'')\<rparr>\<rparr>
        \<lparr>rt_fetch = (\<lambda>req. Inr \<lparr>resp_ok = False, resp_status = 500,
                                   resp_statusText = js ''Internal Server Error''\<rparr>),
         rt_now = []\<rparr>
        (js ''example-com'') (js ''hello'') (js ''Hi'') (js ''u@example.com'')
        \<lparr>console = [], fetched = []\<rparr>
     = (Inr (),
        \<lparr>console = [ConsoleError (js ''ntfy request failed: 500 Internal Server Error'') None],
         fetched = [notification_request (js ''https://ntfy.example.com/'') (js ''example-com'')
                      (js ''hello'') (js ''Hi'') (js ''u@example.com'')]\<rparr>)"
proof -
  let ?rt2 = "\<lparr>rt_fetch = (\<lambda>req. Inr \<lparr>resp_ok = False, resp_status = 500,
                                   resp_statusText = js ''Internal Server Error''\<rparr>),
         rt_now = []\<rparr>"
  have n: "js ''ntfy request failed: '' @ number_toString 500 @ js '' ''
             @ js ''Internal Server Error''
           = js ''ntfy request failed: 500 Internal Server Error''"
    by code_simp
  let ?e = "\<lparr>NTFY_SERVER = Some (js ''https://ntfy.example.com/'')\<rparr>"
  let ?rt = "\<lparr>rt_fetch = (\<lambda>req. Inl (TypeError (js ''fetch failed''))), rt_now = []\<rparr>"
  have h: "new_EmailProcessor ?e = Inr \<lparr>this_env = ?e\<rparr>"
    by (simp add: new_EmailProcessor_def validateEnvironment_def truthy_def js_def)
  from sendNotification_raises_iff_fetch_rejects
         [OF h, of "js ''example-com''" "js ''hello''" "js ''Hi''" "js ''u@example.com''"
            "\<lparr>console = [], fetched = []\<rparr>" ?rt]
  have "sendNotification \<lparr>this_env = ?e\<rparr> ?rt
        (js ''example-com'') (js ''hello'') (js ''Hi'') (js ''u@example.com'')
        \<lparr>console = [], fetched = []\<rparr>
     = (Inl (TypeError (js ''fetch failed'')),
        \<lparr>console = [ConsoleError (js ''Failed to send ntfy notification:'')
                      (Some (TypeError (js ''fetch failed'')))],
         fetched = [notification_request (js ''https://ntfy.example.com/'') (js ''example-com'')
                      (js ''hello'') (js ''Hi'') (js ''u@example.com'')]\<rparr>)"
    by (simp add: Let_def)
  moreover
  from sendNotification_raises_iff_fetch_rejects
         [OF h, of "js ''example-com''" "js ''hello''" "js ''Hi''" "js ''u@example.com''"
            "\<lparr>console = [], fetched = []\<rparr>" ?rt2]
  have "sendNotification \<lparr>this_env = ?e\<rparr> ?rt2
        (js ''example-com'') (js ''hello'') (js ''Hi'') (js ''u@example.com'')
        \<lparr>console = [], fetched = []\<rparr>
     = (Inr (),
        \<lparr>console = [ConsoleError (js ''ntfy request failed: 500 Internal Server Error'') None],
         fetched = [notification_request (js ''https://ntfy.example.com/'') (js ''example-com'')
                      (js ''hello'') (js ''Hi'') (js ''u@example.com'')]\<rparr>)"
    by (simp add: Let_def n)
  ultimately show ?thesis using h by blast
qed

text \<open>
  C7. \<open>decodeQuotedPrintable\<close> first removes the soft line breaks (\<open>=\<close> followed by an
  optional carriage return and a line feed), then replaces each \<open>=XX\<close> with two hex
  digits by the character whose code is the byte \<open>XX\<close> (for every byte \<open>n\<close>, written
  with upper-case or with lower-case digits), and leaves every other character, also an
  \<open>=\<close> that starts neither a soft line break nor an escape, as it is; a text without
  \<open>=\<close> is returned unchanged, and \<open>decodeQuotedPrintable("Hello=2C=20World=21=0A")\<close>
  is \<open>"Hello, World!\n"\<close>.
\<close>

theorem decodeQuotedPrintable_soft_breaks_then_escapes:
  "decodeQuotedPrintable input = replace_hex_escapes (remove_soft_breaks input)
   \<and> remove_soft_breaks (EQ # CR # LF # rest) = remove_soft_breaks rest
   \<and> remove_soft_breaks (EQ # LF # rest) = remove_soft_breaks rest
   \<and> (\<not> startsWith (c # rest) [EQ, CR, LF] \<and> \<not> startsWith (c # rest) [EQ, LF]
        \<longrightarrow> remove_soft_breaks (c # rest) = c # remove_soft_breaks rest)
   \<and> (isHexDigit h \<and> isHexDigit l
        \<longrightarrow> replace_hex_escapes (EQ # h # l # rest) = fromHexPair h l # replace_hex_escapes rest)
   \<and> (n < 256
        \<longrightarrow> fromHexPair (js ''0123456789ABCDEF'' ! (n div 16)) (js ''0123456789ABCDEF'' ! (n mod 16))
              = of_nat n
          \<and> fromHexPair (js ''0123456789abcdef'' ! (n div 16)) (js ''0123456789abcdef'' ! (n mod 16))
              = of_nat n)
   \<and> (\<not> (c = EQ \<and> (\<exists>h l r. rest = h # l # r \<and> isHexDigit h \<and> isHexDigit l))
        \<longrightarrow> replace_hex_escapes (c # rest) = c # replace_hex_escapes rest)
   \<and> (EQ \<notin> set input \<longrightarrow> decodeQuotedPrintable input = input)
   \<and> decodeQuotedPrintable (js ''Hello=2C=20World=21=0A'') = js ''Hello, World!'' @ [LF]"
proof -
  have p1: "decodeQuotedPrintable input = replace_hex_escapes (remove_soft_breaks input)"
    by (simp add: decodeQuotedPrintable_def)
  have p2: "remove_soft_breaks (EQ # CR # LF # rest) = remove_soft_breaks rest"
    by simp
  have p3: "remove_soft_breaks (EQ # LF # rest) = remove_soft_breaks rest"
    by (simp add: CR_def LF_def)
  have p4: "\<not> startsWith (c # rest) [EQ, CR, LF] \<and> \<not> startsWith (c # rest) [EQ, LF]
        \<longrightarrow> remove_soft_breaks (c # rest) = c # remove_soft_breaks rest"
    by simp
  have p5: "isHexDigit h \<and> isHexDigit l
        \<longrightarrow> replace_hex_escapes (EQ # h # l # rest) = fromHexPair h l # replace_hex_escapes rest"
    by simp
  have p6: "n < 256
        \<longrightarrow> fromHexPair (js ''0123456789ABCDEF'' ! (n div 16)) (js ''0123456789ABCDEF'' ! (n mod 16))
              = of_nat n
          \<and> fromHexPair (js ''0123456789abcdef'' ! (n div 16)) (js ''0123456789abcdef'' ! (n mod 16))
              = of_nat n"
    using fromHexPair_upper fromHexPair_lower by blast
  have p7: "\<not> (c = EQ \<and> (\<exists>h l r. rest = h # l # r \<and> isHexDigit h \<and> isHexDigit l))
        \<longrightarrow> replace_hex_escapes (c # rest) = c # replace_hex_escapes rest"
    using replace_hex_escapes_keep by blast
  have p8: "EQ \<notin> set input \<longrightarrow> decodeQuotedPrintable input = input"
    by (simp add: decodeQuotedPrintable_def remove_soft_breaks_no_EQ replace_hex_escapes_no_EQ)
  have p9: "decodeQuotedPrintable (js ''Hello=2C=20World=21=0A'') = js ''Hello, World!'' @ [LF]"
    by code_simp
  from p1 p2 p3 p4 p5 p6 p7 p8 p9 show ?thesis by blast
qed

theorem decodeQuotedPrintable_soft_breaks_then_escapes_witness:
  "remove_soft_breaks (EQ # js ''zz'') = EQ # remove_soft_breaks (js ''zz'')
   \<and> replace_hex_escapes (EQ # js ''41zz'') = fromHexPair 0x34 0x31 # replace_hex_escapes (js ''zz'')
   \<and> fromHexPair 0x34 0x31 = 0x41
   \<and> replace_hex_escapes (EQ # js ''zz'') = EQ # replace_hex_escapes (js ''zz'')
   \<and> decodeQuotedPrintable (js ''plain'') = js ''plain''"
proof -
  note inst = decodeQuotedPrintable_soft_breaks_then_escapes
    [of "js ''plain''" "js ''zz''" EQ "0x34" "0x31" 65]
  have h1: "\<not> startsWith (EQ # js ''zz'') [EQ, CR, LF] \<and> \<not> startsWith (EQ # js ''zz'') [EQ, LF]"
    by code_simp
  have h2: "isHexDigit 0x34 \<and> isHexDigit 0x31"
    by (simp add: isHexDigit_def)
  have h3: "(65::nat) < 256"
    by simp
  have h4: "\<not> (EQ = EQ \<and> (\<exists>h l r. js ''zz'' = h # l # r \<and> isHexDigit h \<and> isHexDigit l))"
    by (simp add: js_def isHexDigit_def)
  have h5: "EQ \<notin> set (js ''plain'')"
    by (simp add: js_def EQ_def)
  have e1: "js ''41zz'' = 0x34 # 0x31 # js ''zz''"
    by (simp add: js_def)
  have e2: "js ''0123456789ABCDEF'' ! (65 div 16) = 0x34 \<and> js ''0123456789ABCDEF'' ! (65 mod 16) = 0x31"
    by (simp add: js_def)
  have e3: "of_nat 65 = (0x41 :: jschar)"
    by simp
  from inst h1 h2 h3 h4 h5 show ?thesis
    unfolding e1 using e2 e3 by metis
qed

text \<open>
  C8. On a raw message in which the boundary pattern matches nowhere, \<open>extractPlainText\<close>
  returns the trimmed text after the first \<open>\r\n\r\n\<close>, or the whole text trimmed when
  there is no \<open>\r\n\r\n\<close>; \<open>extractPlainText("Header: v\r\n\r\nBody text")\<close> is
  \<open>"Body text"\<close>.
\<close>

theorem extractPlainText_non_mime:
  assumes "boundary_match raw = None"
  shows "extractPlainText raw = Inr (extractSimpleEmail raw)
   \<and> (\<forall>h b. raw = h @ CRLFCRLF @ b \<and> (\<forall>j<length h. \<not> startsWith (drop j raw) CRLFCRLF)
          \<longrightarrow> extractPlainText raw = Inr (trim b))
   \<and> ((\<forall>j. \<not> startsWith (drop j raw) CRLFCRLF) \<longrightarrow> extractPlainText raw = Inr (trim raw))
   \<and> extractPlainText (js ''Header: v'' @ CRLFCRLF @ js ''Body text'') = Inr (js ''Body text'')"
proof -
  have e: "extractPlainText raw = Inr (extractSimpleEmail raw)"
    using assms by (simp add: extractPlainText_def extractSimpleEmail_Nil)
  have x: "extractPlainText (js ''Header: v'' @ CRLFCRLF @ js ''Body text'') = Inr (js ''Body text'')"
    by code_simp
  have "(\<forall>h b. raw = h @ CRLFCRLF @ b \<and> (\<forall>j<length h. \<not> startsWith (drop j raw) CRLFCRLF)
          \<longrightarrow> extractSimpleEmail raw = trim b)
   \<and> ((\<forall>j. \<not> startsWith (drop j raw) CRLFCRLF) \<longrightarrow> extractSimpleEmail raw = trim raw)"
    using extractSimpleEmail_split extractSimpleEmail_whole by blast
  with x show ?thesis
    unfolding e by blast
qed

theorem extractPlainText_non_mime_witness:
  "boundary_match (js ''Header: v'' @ CRLFCRLF @ js ''Body text'') = None
   \<and> extractPlainText (js ''Header: v'' @ CRLFCRLF @ js ''Body text'') = Inr (js ''Body text'')
   \<and> boundary_match (js '' no blank line '') = None
   \<and> extractPlainText (js '' no blank line '') = Inr (js ''no blank line'')"
proof -
  let ?raw = "js ''Header: v'' @ CRLFCRLF @ js ''Body text''"
  let ?raw2 = "js '' no blank line ''"
  have h1: "boundary_match ?raw = None"
    by code_simp
  have i1: "indexOf ?raw CRLFCRLF = Some (length (js ''Header: v''))"
    by code_simp
  have h2: "\<forall>j<length (js ''Header: v''). \<not> startsWith (drop j ?raw) CRLFCRLF"
    using indexOf_SomeD [OF i1] by blast
  have t: "trim (js ''Body text'') = js ''Body text''"
    by code_simp
  have r1: "extractPlainText ?raw = Inr (js ''Body text'')"
    using extractPlainText_non_mime [OF h1] h2 t by metis
  have h3: "boundary_match ?raw2 = None"
    by code_simp
  have i2: "indexOf ?raw2 CRLFCRLF = None"
    by code_simp
  have h4: "\<forall>j. \<not> startsWith (drop j ?raw2) CRLFCRLF"
    using indexOf_NoneD [OF i2] by blast
  have t2: "trim ?raw2 = js ''no blank line''"
    by code_simp
  have r2: "extractPlainText ?raw2 = Inr (js ''no blank line'')"
    using extractPlainText_non_mime [OF h3] h4 t2 by metis
  from h1 r1 h3 r2 show ?thesis by blast
qed

text \<open>
  C9. For every input string, \<open>sanitizeHeader\<close> replaces each carriage return and line
  feed with a space, collapses whitespace runs to a single space and trims. Its result
  never contains a carriage return or a line feed (the only whitespace left in it is the
  plain space), and \<open>sanitizeHeader("  a\r\nb ")\<close> is \<open>"a b"\<close>.
\<close>

theorem sanitizeHeader_no_line_breaks:
  "sanitizeHeader v = trim (replace_ws_runs (replace_line_breaks v))
   \<and> CR \<notin> set (sanitizeHeader v) \<and> LF \<notin> set (sanitizeHeader v)
   \<and> (\<forall>c \<in> set (sanitizeHeader v). isWhiteSpace c \<longrightarrow> c = SP)
   \<and> sanitizeHeader (js ''  a'' @ [CR, LF] @ js ''b '') = js ''a b''"
proof -
  have comp: "sanitizeHeader v = trim (replace_ws_runs (replace_line_breaks v))"
    by (simp add: sanitizeHeader_def trim_def replace_line_breaks_def)
  have only: "\<forall>c \<in> set (sanitizeHeader v). isWhiteSpace c \<longrightarrow> c = SP"
    unfolding comp using trim_only_SP by blast
  have cr: "CR \<notin> set (sanitizeHeader v)"
    using only isWhiteSpace_CR SP_neq(1) by blast
  have lf: "LF \<notin> set (sanitizeHeader v)"
    using only isWhiteSpace_LF SP_neq(2) by blast
  have ex: "sanitizeHeader (js ''  a'' @ [CR, LF] @ js ''b '') = js ''a b''"
    by code_simp
  from comp only cr lf ex show ?thesis by blast
qed

theorem sanitizeHeader_no_line_breaks_witness:
  "CR \<notin> set (sanitizeHeader (js ''x'' @ [CR, LF] @ js ''Title: y''))
   \<and> sanitizeHeader (js ''x'' @ [CR, LF] @ js ''Title: y'') = js ''x Title: y''"
proof -
  have "sanitizeHeader (js ''x'' @ [CR, LF] @ js ''Title: y'') = js ''x Title: y''"
    by code_simp
  with sanitizeHeader_no_line_breaks [of "js ''x'' @ [CR, LF] @ js ''Title: y''"]
  show ?thesis by blast
qed

text \<open>
  C10. When the raw message can be read, \<open>processEmail\<close> hands exactly one request to
  \<open>fetch\<close>, built with these defaults: the sender is the \<open>from\<close> header, else
  \<open>message.from\<close>, else \<open>(unknown sender)\<close>; the subject is the \<open>subject\<close> header,
  else \<open>(no subject)\<close>; the date is the \<open>date\<close> header, else the current time as the
  runtime prints it; the recipient is \<open>message.to\<close>, else the empty string, and then the
  topic is \<open>unknown\<close>. Absent and empty count alike.
\<close>

theorem processEmail_defaults:
  assumes "new_EmailProcessor e = Inr this" and "msg_raw_text message = Inr raw"
  shows "\<exists>server plain. NTFY_SERVER e = Some server \<and> extractPlainText raw = Inr plain \<and>
     (let sender = (if truthy (msg_headers_get message (js ''from''))
                    then the (msg_headers_get message (js ''from''))
                    else if truthy (msg_from message) then the (msg_from message)
                    else js ''(unknown sender)'');
          subject = (if truthy (msg_headers_get message (js ''subject''))
                     then the (msg_headers_get message (js ''subject''))
                     else js ''(no subject)'');
          date = (if truthy (msg_headers_get message (js ''date''))
                  then the (msg_headers_get message (js ''date''))
                  else rt_now rt);
          recipient = (if truthy (msg_to message) then the (msg_to message) else []);
          topic = (if truthy (msg_to message) then generateTopic (the (msg_to message))
                   else js ''unknown'')
      in fetched (snd (processEmail this rt message w)) =
           fetched w @
             [notification_request server topic
                (buildMarkdownPayload
                   \<lparr>ed_from = sender, ed_to = recipient, ed_subject = subject, ed_date = date,
                    ed_body = truncateText (cleanBodyText plain) 1000\<rparr>)
                subject recipient])"
proof -
  obtain server where s: "NTFY_SERVER e = Some server" and this_eq: "this = \<lparr>this_env = e\<rparr>"
    using new_EmailProcessor_Inr [OF assms(1)] by auto
  obtain plain where t: "extractPlainText raw = Inr plain"
    using extractPlainText_Inr by blast
  have s': "NTFY_SERVER (this_env this) = Some server"
    using s this_eq by simp
  have f: "fetched (snd (processEmail_body this rt message w)) =
     fetched w @
       [notification_request server (generateTopic (or_else (msg_to message) []))
          (buildMarkdownPayload
             \<lparr>ed_from = or_else (msg_headers_get message (js ''from''))
                          (or_else (msg_from message) (js ''(unknown sender)'')),
              ed_to = or_else (msg_to message) [],
              ed_subject = or_else (msg_headers_get message (js ''subject'')) (js ''(no subject)''),
              ed_date = or_else (msg_headers_get message (js ''date'')) (rt_now rt),
              ed_body = truncateText (cleanBodyText plain) 1000\<rparr>)
          (or_else (msg_headers_get message (js ''subject'')) (js ''(no subject)''))
          (or_else (msg_to message) [])]"
    by (simp add: processEmail_body_sends [OF assms(2) t] Let_def fetched_after_log
          sendNotification_fetched [OF s'])
  have g: "generateTopic (or_else (msg_to message) []) =
             (if truthy (msg_to message) then generateTopic (the (msg_to message))
              else js ''unknown'')"
    by (simp add: or_else_eq generateTopic_Nil)
  show ?thesis
    apply (rule exI [of _ server], rule exI [of _ plain])
    unfolding Let_def processEmail_fetched f g
    using s t by (simp add: or_else_eq)
qed

theorem processEmail_defaults_witness:
  "fetched (snd (processEmail
      \<lparr>this_env = \<lparr>NTFY_SERVER = Some (js ''https://ntfy.example.com/'')\<rparr>\<rparr>
      \<lparr>rt_fetch = (\<lambda>req. Inr \<lparr>resp_ok = True, resp_status = 200, resp_statusText = js ''OK''\<rparr>),
       rt_now = js ''2025-06-27T12:00:00.000Z''\<rparr>
      \<lparr>msg_to = None, msg_from = None, msg_headers_get = (\<lambda>name. Some []),
       msg_raw_text = Inr (js ''Header: v'' @ CRLFCRLF @ js ''Body text'')\<rparr>
      \<lparr>console = [], fetched = []\<rparr>))
   = [\<lparr>req_url = js ''https://ntfy.example.com/unknown'',
       req_method = js ''POST'',
       req_headers = [(js ''Title'', js ''Email: (no subject)''), (js ''Priority'', js ''4''),
                      (js ''Tags'', js ''email,''), (js ''Markdown'', js ''yes'')],
       req_body = js ''**Date:** 2025-06-27T12:00:00.000Z'' @ [LF, LF]
                  @ js ''**From:** (unknown sender)  '' @ [LF]
                  @ js ''**To:**   '' @ [LF]
                  @ js ''**Subject:** (no subject)  '' @ [LF, LF]
                  @ js ''---'' @ [LF, LF]
                  @ js ''Body text''\<rparr>]"
proof -
  let ?e = "\<lparr>NTFY_SERVER = Some (js ''https://ntfy.example.com/'')\<rparr>"
  let ?rt = "\<lparr>rt_fetch = (\<lambda>req. Inr \<lparr>resp_ok = True, resp_status = 200, resp_statusText = js ''OK''\<rparr>),
       rt_now = js ''2025-06-27T12:00:00.000Z''\<rparr>"
  let ?m = "\<lparr>msg_to = None, msg_from = None, msg_headers_get = (\<lambda>name. Some []),
       msg_raw_text = Inr (js ''Header: v'' @ CRLFCRLF @ js ''Body text'')\<rparr>"
  let ?w = "\<lparr>console = [], fetched = []\<rparr>"
  have h1: "new_EmailProcessor ?e = Inr \<lparr>this_env = ?e\<rparr>"
    by (simp add: new_EmailProcessor_def validateEnvironment_def truthy_def js_def)
  have h2: "msg_raw_text ?m = Inr (js ''Header: v'' @ CRLFCRLF @ js ''Body text'')"
    by simp
  have x: "extractPlainText (js ''Header: v'' @ CRLFCRLF @ js ''Body text'') = Inr (js ''Body text'')"
    by code_simp
  have q: "notification_request (js ''https://ntfy.example.com/'') (js ''unknown'')
             (buildMarkdownPayload
                \<lparr>ed_from = js ''(unknown sender)'', ed_to = [], ed_subject = js ''(no subject)'',
                 ed_date = js ''2025-06-27T12:00:00.000Z'',
                 ed_body = truncateText (cleanBodyText (js ''Body text'')) 1000\<rparr>)
             (js ''(no subject)'') []
     = \<lparr>req_url = js ''https://ntfy.example.com/unknown'',
       req_method = js ''POST'',
       req_headers = [(js ''Title'', js ''Email: (no subject)''), (js ''Priority'', js ''4''),
                      (js ''Tags'', js ''email,''), (js ''Markdown'', js ''yes'')],
       req_body = js ''**Date:** 2025-06-27T12:00:00.000Z'' @ [LF, LF]
                  @ js ''**From:** (unknown sender)  '' @ [LF]
                  @ js ''**To:**   '' @ [LF]
                  @ js ''**Subject:** (no subject)  '' @ [LF, LF]
                  @ js ''---'' @ [LF, LF]
                  @ js ''Body text''\<rparr>"
    by code_simp
  from processEmail_defaults [OF h1 h2, of ?rt ?w]
  have "fetched (snd (processEmail \<lparr>this_env = ?e\<rparr> ?rt ?m ?w)) =
     [notification_request (js ''https://ntfy.example.com/'') (js ''unknown'')
             (buildMarkdownPayload
                \<lparr>ed_from = js ''(unknown sender)'', ed_to = [], ed_subject = js ''(no subject)'',
                 ed_date = js ''2025-06-27T12:00:00.000Z'',
                 ed_body = truncateText (cleanBodyText (js ''Body text'')) 1000\<rparr>)
             (js ''(no subject)'') []]"
    by (auto simp: x truthy_def Let_def)
  then show ?thesis by (simp only: q)
qed

end
